theory Spec2Isabelle
  imports Main "HOL-Library.Sublist" "HOL-Library.Word"
begin

unbundle bit_operations_syntax

text \<open>
  A shallow embedding of the UConn syllabi scraper: the helper functions of the spider
  (\<^verbatim>\<open>spiders/uconn_syllabi_spider.py\<close>), its per-term callback, and the files pipeline
  (\<^verbatim>\<open>pipelines.py\<close>). Each definition carries the name of the source function or variable
  it stands for. The functions of the Python library and of Scrapy that the code calls are
  modelled in sections of their own. The properties follow the definitions.
\<close>

section \<open>Python strings\<close>

text \<open>
  A Python \<^verbatim>\<open>str\<close> is a sequence of Unicode code points: a list of integers. The
  string literals of the source, and the URL of a request, are written as lists of
  characters: a character stands for the code point of the same number (below 256), and
  \<open>str\<close> gives the code points.

  The methods of \<^verbatim>\<open>str\<close> and the class \<^verbatim>\<open>\w\<close> of \<^verbatim>\<open>re\<close> depend on the Unicode character
  database. The tables below are those of CPython 3.11 (Unicode 14.0), over all code
  points.
\<close>

type_synonym ustring = "int list"

definition ord :: "char \<Rightarrow> int" where
  "ord c = of_char c"

definition str :: "string \<Rightarrow> ustring" where
  "str s = map ord s"

definition in_ranges :: "(int \<times> int) list \<Rightarrow> int \<Rightarrow> bool" where
  "in_ranges rs c = list_ex (\<lambda>(lo, hi). lo \<le> c \<and> c \<le> hi) rs"

fun in_runs :: "(int \<times> int \<times> int \<times> int) list \<Rightarrow> int \<Rightarrow> int option" where
  \<comment> \<open>a run \<open>(lo, hi, step, d)\<close> maps \<open>lo\<close>, \<open>lo + step\<close>, ... up to \<open>hi\<close>, each to itself plus \<open>d\<close>\<close>
  "in_runs [] c = None"
| "in_runs ((lo, hi, step, d) # rs) c =
     (if lo \<le> c \<and> c \<le> hi \<and> (c - lo) mod step = 0 then Some (c + d) else in_runs rs c)"

definition space_ranges :: "(int \<times> int) list" where
  \<comment> \<open>the code points for which \<^verbatim>\<open>str.isspace\<close> holds\<close>
  "space_ranges =
     [(0x9, 0xD), (0x1C, 0x20), (0x85, 0x85), (0xA0, 0xA0), (0x1680, 0x1680), (0x2000, 0x200A),
      (0x2028, 0x2029), (0x202F, 0x202F), (0x205F, 0x205F), (0x3000, 0x3000)]"

definition digit_ranges :: "(int \<times> int) list" where
  \<comment> \<open>the code points for which \<^verbatim>\<open>str.isdigit\<close> holds\<close>
  "digit_ranges =
     [(0x30, 0x39), (0xB2, 0xB3), (0xB9, 0xB9), (0x660, 0x669), (0x6F0, 0x6F9), (0x7C0, 0x7C9),
      (0x966, 0x96F), (0x9E6, 0x9EF), (0xA66, 0xA6F), (0xAE6, 0xAEF), (0xB66, 0xB6F),
      (0xBE6, 0xBEF), (0xC66, 0xC6F), (0xCE6, 0xCEF), (0xD66, 0xD6F), (0xDE6, 0xDEF),
      (0xE50, 0xE59), (0xED0, 0xED9), (0xF20, 0xF29), (0x1040, 0x1049), (0x1090, 0x1099),
      (0x1369, 0x1371), (0x17E0, 0x17E9), (0x1810, 0x1819), (0x1946, 0x194F), (0x19D0, 0x19DA),
      (0x1A80, 0x1A89), (0x1A90, 0x1A99), (0x1B50, 0x1B59), (0x1BB0, 0x1BB9), (0x1C40, 0x1C49),
      (0x1C50, 0x1C59), (0x2070, 0x2070), (0x2074, 0x2079), (0x2080, 0x2089), (0x2460, 0x2468),
      (0x2474, 0x247C), (0x2488, 0x2490), (0x24EA, 0x24EA), (0x24F5, 0x24FD), (0x24FF, 0x24FF),
      (0x2776, 0x277E), (0x2780, 0x2788), (0x278A, 0x2792), (0xA620, 0xA629), (0xA8D0, 0xA8D9),
      (0xA900, 0xA909), (0xA9D0, 0xA9D9), (0xA9F0, 0xA9F9), (0xAA50, 0xAA59), (0xABF0, 0xABF9),
      (0xFF10, 0xFF19), (0x104A0, 0x104A9), (0x10A40, 0x10A43), (0x10D30, 0x10D39),
      (0x10E60, 0x10E68), (0x11052, 0x1105A), (0x11066, 0x1106F), (0x110F0, 0x110F9),
      (0x11136, 0x1113F), (0x111D0, 0x111D9), (0x112F0, 0x112F9), (0x11450, 0x11459),
      (0x114D0, 0x114D9), (0x11650, 0x11659), (0x116C0, 0x116C9), (0x11730, 0x11739),
      (0x118E0, 0x118E9), (0x11950, 0x11959), (0x11C50, 0x11C59), (0x11D50, 0x11D59),
      (0x11DA0, 0x11DA9), (0x16A60, 0x16A69), (0x16AC0, 0x16AC9), (0x16B50, 0x16B59),
      (0x1D7CE, 0x1D7FF), (0x1E140, 0x1E149), (0x1E2F0, 0x1E2F9), (0x1E950, 0x1E959),
      (0x1F100, 0x1F10A), (0x1FBF0, 0x1FBF9)]"

definition word_ranges :: "(int \<times> int) list" where
  \<comment> \<open>the code points that \<^verbatim>\<open>\w\<close> matches in a \<^verbatim>\<open>str\<close> pattern\<close>
  "word_ranges =
     [(0x30, 0x39), (0x41, 0x5A), (0x5F, 0x5F), (0x61, 0x7A), (0xAA, 0xAA), (0xB2, 0xB3),
      (0xB5, 0xB5), (0xB9, 0xBA), (0xBC, 0xBE), (0xC0, 0xD6), (0xD8, 0xF6), (0xF8, 0x2C1),
      (0x2C6, 0x2D1), (0x2E0, 0x2E4), (0x2EC, 0x2EC), (0x2EE, 0x2EE), (0x370, 0x374),
      (0x376, 0x377), (0x37A, 0x37D), (0x37F, 0x37F), (0x386, 0x386), (0x388, 0x38A),
      (0x38C, 0x38C), (0x38E, 0x3A1), (0x3A3, 0x3F5), (0x3F7, 0x481), (0x48A, 0x52F),
      (0x531, 0x556), (0x559, 0x559), (0x560, 0x588), (0x5D0, 0x5EA), (0x5EF, 0x5F2),
      (0x620, 0x64A), (0x660, 0x669), (0x66E, 0x66F), (0x671, 0x6D3), (0x6D5, 0x6D5),
      (0x6E5, 0x6E6), (0x6EE, 0x6FC), (0x6FF, 0x6FF), (0x710, 0x710), (0x712, 0x72F),
      (0x74D, 0x7A5), (0x7B1, 0x7B1), (0x7C0, 0x7EA), (0x7F4, 0x7F5), (0x7FA, 0x7FA),
      (0x800, 0x815), (0x81A, 0x81A), (0x824, 0x824), (0x828, 0x828), (0x840, 0x858),
      (0x860, 0x86A), (0x870, 0x887), (0x889, 0x88E), (0x8A0, 0x8C9), (0x904, 0x939),
      (0x93D, 0x93D), (0x950, 0x950), (0x958, 0x961), (0x966, 0x96F), (0x971, 0x980),
      (0x985, 0x98C), (0x98F, 0x990), (0x993, 0x9A8), (0x9AA, 0x9B0), (0x9B2, 0x9B2),
      (0x9B6, 0x9B9), (0x9BD, 0x9BD), (0x9CE, 0x9CE), (0x9DC, 0x9DD), (0x9DF, 0x9E1),
      (0x9E6, 0x9F1), (0x9F4, 0x9F9), (0x9FC, 0x9FC), (0xA05, 0xA0A), (0xA0F, 0xA10),
      (0xA13, 0xA28), (0xA2A, 0xA30), (0xA32, 0xA33), (0xA35, 0xA36), (0xA38, 0xA39),
      (0xA59, 0xA5C), (0xA5E, 0xA5E), (0xA66, 0xA6F), (0xA72, 0xA74), (0xA85, 0xA8D),
      (0xA8F, 0xA91), (0xA93, 0xAA8), (0xAAA, 0xAB0), (0xAB2, 0xAB3), (0xAB5, 0xAB9),
      (0xABD, 0xABD), (0xAD0, 0xAD0), (0xAE0, 0xAE1), (0xAE6, 0xAEF), (0xAF9, 0xAF9),
      (0xB05, 0xB0C), (0xB0F, 0xB10), (0xB13, 0xB28), (0xB2A, 0xB30), (0xB32, 0xB33),
      (0xB35, 0xB39), (0xB3D, 0xB3D), (0xB5C, 0xB5D), (0xB5F, 0xB61), (0xB66, 0xB6F),
      (0xB71, 0xB77), (0xB83, 0xB83), (0xB85, 0xB8A), (0xB8E, 0xB90), (0xB92, 0xB95),
      (0xB99, 0xB9A), (0xB9C, 0xB9C), (0xB9E, 0xB9F), (0xBA3, 0xBA4), (0xBA8, 0xBAA),
      (0xBAE, 0xBB9), (0xBD0, 0xBD0), (0xBE6, 0xBF2), (0xC05, 0xC0C), (0xC0E, 0xC10),
      (0xC12, 0xC28), (0xC2A, 0xC39), (0xC3D, 0xC3D), (0xC58, 0xC5A), (0xC5D, 0xC5D),
      (0xC60, 0xC61), (0xC66, 0xC6F), (0xC78, 0xC7E), (0xC80, 0xC80), (0xC85, 0xC8C),
      (0xC8E, 0xC90), (0xC92, 0xCA8), (0xCAA, 0xCB3), (0xCB5, 0xCB9), (0xCBD, 0xCBD),
      (0xCDD, 0xCDE), (0xCE0, 0xCE1), (0xCE6, 0xCEF), (0xCF1, 0xCF2), (0xD04, 0xD0C),
      (0xD0E, 0xD10), (0xD12, 0xD3A), (0xD3D, 0xD3D), (0xD4E, 0xD4E), (0xD54, 0xD56),
      (0xD58, 0xD61), (0xD66, 0xD78), (0xD7A, 0xD7F), (0xD85, 0xD96), (0xD9A, 0xDB1),
      (0xDB3, 0xDBB), (0xDBD, 0xDBD), (0xDC0, 0xDC6), (0xDE6, 0xDEF), (0xE01, 0xE30),
      (0xE32, 0xE33), (0xE40, 0xE46), (0xE50, 0xE59), (0xE81, 0xE82), (0xE84, 0xE84),
      (0xE86, 0xE8A), (0xE8C, 0xEA3), (0xEA5, 0xEA5), (0xEA7, 0xEB0), (0xEB2, 0xEB3),
      (0xEBD, 0xEBD), (0xEC0, 0xEC4), (0xEC6, 0xEC6), (0xED0, 0xED9), (0xEDC, 0xEDF),
      (0xF00, 0xF00), (0xF20, 0xF33), (0xF40, 0xF47), (0xF49, 0xF6C), (0xF88, 0xF8C),
      (0x1000, 0x102A), (0x103F, 0x1049), (0x1050, 0x1055), (0x105A, 0x105D), (0x1061, 0x1061),
      (0x1065, 0x1066), (0x106E, 0x1070), (0x1075, 0x1081), (0x108E, 0x108E), (0x1090, 0x1099),
      (0x10A0, 0x10C5), (0x10C7, 0x10C7), (0x10CD, 0x10CD), (0x10D0, 0x10FA), (0x10FC, 0x1248),
      (0x124A, 0x124D), (0x1250, 0x1256), (0x1258, 0x1258), (0x125A, 0x125D), (0x1260, 0x1288),
      (0x128A, 0x128D), (0x1290, 0x12B0), (0x12B2, 0x12B5), (0x12B8, 0x12BE), (0x12C0, 0x12C0),
      (0x12C2, 0x12C5), (0x12C8, 0x12D6), (0x12D8, 0x1310), (0x1312, 0x1315), (0x1318, 0x135A),
      (0x1369, 0x137C), (0x1380, 0x138F), (0x13A0, 0x13F5), (0x13F8, 0x13FD), (0x1401, 0x166C),
      (0x166F, 0x167F), (0x1681, 0x169A), (0x16A0, 0x16EA), (0x16EE, 0x16F8), (0x1700, 0x1711),
      (0x171F, 0x1731), (0x1740, 0x1751), (0x1760, 0x176C), (0x176E, 0x1770), (0x1780, 0x17B3),
      (0x17D7, 0x17D7), (0x17DC, 0x17DC), (0x17E0, 0x17E9), (0x17F0, 0x17F9), (0x1810, 0x1819),
      (0x1820, 0x1878), (0x1880, 0x1884), (0x1887, 0x18A8), (0x18AA, 0x18AA), (0x18B0, 0x18F5),
      (0x1900, 0x191E), (0x1946, 0x196D), (0x1970, 0x1974), (0x1980, 0x19AB), (0x19B0, 0x19C9),
      (0x19D0, 0x19DA), (0x1A00, 0x1A16), (0x1A20, 0x1A54), (0x1A80, 0x1A89), (0x1A90, 0x1A99),
      (0x1AA7, 0x1AA7), (0x1B05, 0x1B33), (0x1B45, 0x1B4C), (0x1B50, 0x1B59), (0x1B83, 0x1BA0),
      (0x1BAE, 0x1BE5), (0x1C00, 0x1C23), (0x1C40, 0x1C49), (0x1C4D, 0x1C7D), (0x1C80, 0x1C88),
      (0x1C90, 0x1CBA), (0x1CBD, 0x1CBF), (0x1CE9, 0x1CEC), (0x1CEE, 0x1CF3), (0x1CF5, 0x1CF6),
      (0x1CFA, 0x1CFA), (0x1D00, 0x1DBF), (0x1E00, 0x1F15), (0x1F18, 0x1F1D), (0x1F20, 0x1F45),
      (0x1F48, 0x1F4D), (0x1F50, 0x1F57), (0x1F59, 0x1F59), (0x1F5B, 0x1F5B), (0x1F5D, 0x1F5D),
      (0x1F5F, 0x1F7D), (0x1F80, 0x1FB4), (0x1FB6, 0x1FBC), (0x1FBE, 0x1FBE), (0x1FC2, 0x1FC4),
      (0x1FC6, 0x1FCC), (0x1FD0, 0x1FD3), (0x1FD6, 0x1FDB), (0x1FE0, 0x1FEC), (0x1FF2, 0x1FF4),
      (0x1FF6, 0x1FFC), (0x2070, 0x2071), (0x2074, 0x2079), (0x207F, 0x2089), (0x2090, 0x209C),
      (0x2102, 0x2102), (0x2107, 0x2107), (0x210A, 0x2113), (0x2115, 0x2115), (0x2119, 0x211D),
      (0x2124, 0x2124), (0x2126, 0x2126), (0x2128, 0x2128), (0x212A, 0x212D), (0x212F, 0x2139),
      (0x213C, 0x213F), (0x2145, 0x2149), (0x214E, 0x214E), (0x2150, 0x2189), (0x2460, 0x249B),
      (0x24EA, 0x24FF), (0x2776, 0x2793), (0x2C00, 0x2CE4), (0x2CEB, 0x2CEE), (0x2CF2, 0x2CF3),
      (0x2CFD, 0x2CFD), (0x2D00, 0x2D25), (0x2D27, 0x2D27), (0x2D2D, 0x2D2D), (0x2D30, 0x2D67),
      (0x2D6F, 0x2D6F), (0x2D80, 0x2D96), (0x2DA0, 0x2DA6), (0x2DA8, 0x2DAE), (0x2DB0, 0x2DB6),
      (0x2DB8, 0x2DBE), (0x2DC0, 0x2DC6), (0x2DC8, 0x2DCE), (0x2DD0, 0x2DD6), (0x2DD8, 0x2DDE),
      (0x2E2F, 0x2E2F), (0x3005, 0x3007), (0x3021, 0x3029), (0x3031, 0x3035), (0x3038, 0x303C),
      (0x3041, 0x3096), (0x309D, 0x309F), (0x30A1, 0x30FA), (0x30FC, 0x30FF), (0x3105, 0x312F),
      (0x3131, 0x318E), (0x3192, 0x3195), (0x31A0, 0x31BF), (0x31F0, 0x31FF), (0x3220, 0x3229),
      (0x3248, 0x324F), (0x3251, 0x325F), (0x3280, 0x3289), (0x32B1, 0x32BF), (0x3400, 0x4DBF),
      (0x4E00, 0xA48C), (0xA4D0, 0xA4FD), (0xA500, 0xA60C), (0xA610, 0xA62B), (0xA640, 0xA66E),
      (0xA67F, 0xA69D), (0xA6A0, 0xA6EF), (0xA717, 0xA71F), (0xA722, 0xA788), (0xA78B, 0xA7CA),
      (0xA7D0, 0xA7D1), (0xA7D3, 0xA7D3), (0xA7D5, 0xA7D9), (0xA7F2, 0xA801), (0xA803, 0xA805),
      (0xA807, 0xA80A), (0xA80C, 0xA822), (0xA830, 0xA835), (0xA840, 0xA873), (0xA882, 0xA8B3),
      (0xA8D0, 0xA8D9), (0xA8F2, 0xA8F7), (0xA8FB, 0xA8FB), (0xA8FD, 0xA8FE), (0xA900, 0xA925),
      (0xA930, 0xA946), (0xA960, 0xA97C), (0xA984, 0xA9B2), (0xA9CF, 0xA9D9), (0xA9E0, 0xA9E4),
      (0xA9E6, 0xA9FE), (0xAA00, 0xAA28), (0xAA40, 0xAA42), (0xAA44, 0xAA4B), (0xAA50, 0xAA59),
      (0xAA60, 0xAA76), (0xAA7A, 0xAA7A), (0xAA7E, 0xAAAF), (0xAAB1, 0xAAB1), (0xAAB5, 0xAAB6),
      (0xAAB9, 0xAABD), (0xAAC0, 0xAAC0), (0xAAC2, 0xAAC2), (0xAADB, 0xAADD), (0xAAE0, 0xAAEA),
      (0xAAF2, 0xAAF4), (0xAB01, 0xAB06), (0xAB09, 0xAB0E), (0xAB11, 0xAB16), (0xAB20, 0xAB26),
      (0xAB28, 0xAB2E), (0xAB30, 0xAB5A), (0xAB5C, 0xAB69), (0xAB70, 0xABE2), (0xABF0, 0xABF9),
      (0xAC00, 0xD7A3), (0xD7B0, 0xD7C6), (0xD7CB, 0xD7FB), (0xF900, 0xFA6D), (0xFA70, 0xFAD9),
      (0xFB00, 0xFB06), (0xFB13, 0xFB17), (0xFB1D, 0xFB1D), (0xFB1F, 0xFB28), (0xFB2A, 0xFB36),
      (0xFB38, 0xFB3C), (0xFB3E, 0xFB3E), (0xFB40, 0xFB41), (0xFB43, 0xFB44), (0xFB46, 0xFBB1),
      (0xFBD3, 0xFD3D), (0xFD50, 0xFD8F), (0xFD92, 0xFDC7), (0xFDF0, 0xFDFB), (0xFE70, 0xFE74),
      (0xFE76, 0xFEFC), (0xFF10, 0xFF19), (0xFF21, 0xFF3A), (0xFF41, 0xFF5A), (0xFF66, 0xFFBE),
      (0xFFC2, 0xFFC7), (0xFFCA, 0xFFCF), (0xFFD2, 0xFFD7), (0xFFDA, 0xFFDC), (0x10000, 0x1000B),
      (0x1000D, 0x10026), (0x10028, 0x1003A), (0x1003C, 0x1003D), (0x1003F, 0x1004D),
      (0x10050, 0x1005D), (0x10080, 0x100FA), (0x10107, 0x10133), (0x10140, 0x10178),
      (0x1018A, 0x1018B), (0x10280, 0x1029C), (0x102A0, 0x102D0), (0x102E1, 0x102FB),
      (0x10300, 0x10323), (0x1032D, 0x1034A), (0x10350, 0x10375), (0x10380, 0x1039D),
      (0x103A0, 0x103C3), (0x103C8, 0x103CF), (0x103D1, 0x103D5), (0x10400, 0x1049D),
      (0x104A0, 0x104A9), (0x104B0, 0x104D3), (0x104D8, 0x104FB), (0x10500, 0x10527),
      (0x10530, 0x10563), (0x10570, 0x1057A), (0x1057C, 0x1058A), (0x1058C, 0x10592),
      (0x10594, 0x10595), (0x10597, 0x105A1), (0x105A3, 0x105B1), (0x105B3, 0x105B9),
      (0x105BB, 0x105BC), (0x10600, 0x10736), (0x10740, 0x10755), (0x10760, 0x10767),
      (0x10780, 0x10785), (0x10787, 0x107B0), (0x107B2, 0x107BA), (0x10800, 0x10805),
      (0x10808, 0x10808), (0x1080A, 0x10835), (0x10837, 0x10838), (0x1083C, 0x1083C),
      (0x1083F, 0x10855), (0x10858, 0x10876), (0x10879, 0x1089E), (0x108A7, 0x108AF),
      (0x108E0, 0x108F2), (0x108F4, 0x108F5), (0x108FB, 0x1091B), (0x10920, 0x10939),
      (0x10980, 0x109B7), (0x109BC, 0x109CF), (0x109D2, 0x10A00), (0x10A10, 0x10A13),
      (0x10A15, 0x10A17), (0x10A19, 0x10A35), (0x10A40, 0x10A48), (0x10A60, 0x10A7E),
      (0x10A80, 0x10A9F), (0x10AC0, 0x10AC7), (0x10AC9, 0x10AE4), (0x10AEB, 0x10AEF),
      (0x10B00, 0x10B35), (0x10B40, 0x10B55), (0x10B58, 0x10B72), (0x10B78, 0x10B91),
      (0x10BA9, 0x10BAF), (0x10C00, 0x10C48), (0x10C80, 0x10CB2), (0x10CC0, 0x10CF2),
      (0x10CFA, 0x10D23), (0x10D30, 0x10D39), (0x10E60, 0x10E7E), (0x10E80, 0x10EA9),
      (0x10EB0, 0x10EB1), (0x10F00, 0x10F27), (0x10F30, 0x10F45), (0x10F51, 0x10F54),
      (0x10F70, 0x10F81), (0x10FB0, 0x10FCB), (0x10FE0, 0x10FF6), (0x11003, 0x11037),
      (0x11052, 0x1106F), (0x11071, 0x11072), (0x11075, 0x11075), (0x11083, 0x110AF),
      (0x110D0, 0x110E8), (0x110F0, 0x110F9), (0x11103, 0x11126), (0x11136, 0x1113F),
      (0x11144, 0x11144), (0x11147, 0x11147), (0x11150, 0x11172), (0x11176, 0x11176),
      (0x11183, 0x111B2), (0x111C1, 0x111C4), (0x111D0, 0x111DA), (0x111DC, 0x111DC),
      (0x111E1, 0x111F4), (0x11200, 0x11211), (0x11213, 0x1122B), (0x11280, 0x11286),
      (0x11288, 0x11288), (0x1128A, 0x1128D), (0x1128F, 0x1129D), (0x1129F, 0x112A8),
      (0x112B0, 0x112DE), (0x112F0, 0x112F9), (0x11305, 0x1130C), (0x1130F, 0x11310),
      (0x11313, 0x11328), (0x1132A, 0x11330), (0x11332, 0x11333), (0x11335, 0x11339),
      (0x1133D, 0x1133D), (0x11350, 0x11350), (0x1135D, 0x11361), (0x11400, 0x11434),
      (0x11447, 0x1144A), (0x11450, 0x11459), (0x1145F, 0x11461), (0x11480, 0x114AF),
      (0x114C4, 0x114C5), (0x114C7, 0x114C7), (0x114D0, 0x114D9), (0x11580, 0x115AE),
      (0x115D8, 0x115DB), (0x11600, 0x1162F), (0x11644, 0x11644), (0x11650, 0x11659),
      (0x11680, 0x116AA), (0x116B8, 0x116B8), (0x116C0, 0x116C9), (0x11700, 0x1171A),
      (0x11730, 0x1173B), (0x11740, 0x11746), (0x11800, 0x1182B), (0x118A0, 0x118F2),
      (0x118FF, 0x11906), (0x11909, 0x11909), (0x1190C, 0x11913), (0x11915, 0x11916),
      (0x11918, 0x1192F), (0x1193F, 0x1193F), (0x11941, 0x11941), (0x11950, 0x11959),
      (0x119A0, 0x119A7), (0x119AA, 0x119D0), (0x119E1, 0x119E1), (0x119E3, 0x119E3),
      (0x11A00, 0x11A00), (0x11A0B, 0x11A32), (0x11A3A, 0x11A3A), (0x11A50, 0x11A50),
      (0x11A5C, 0x11A89), (0x11A9D, 0x11A9D), (0x11AB0, 0x11AF8), (0x11C00, 0x11C08),
      (0x11C0A, 0x11C2E), (0x11C40, 0x11C40), (0x11C50, 0x11C6C), (0x11C72, 0x11C8F),
      (0x11D00, 0x11D06), (0x11D08, 0x11D09), (0x11D0B, 0x11D30), (0x11D46, 0x11D46),
      (0x11D50, 0x11D59), (0x11D60, 0x11D65), (0x11D67, 0x11D68), (0x11D6A, 0x11D89),
      (0x11D98, 0x11D98), (0x11DA0, 0x11DA9), (0x11EE0, 0x11EF2), (0x11FB0, 0x11FB0),
      (0x11FC0, 0x11FD4), (0x12000, 0x12399), (0x12400, 0x1246E), (0x12480, 0x12543),
      (0x12F90, 0x12FF0), (0x13000, 0x1342E), (0x14400, 0x14646), (0x16800, 0x16A38),
      (0x16A40, 0x16A5E), (0x16A60, 0x16A69), (0x16A70, 0x16ABE), (0x16AC0, 0x16AC9),
      (0x16AD0, 0x16AED), (0x16B00, 0x16B2F), (0x16B40, 0x16B43), (0x16B50, 0x16B59),
      (0x16B5B, 0x16B61), (0x16B63, 0x16B77), (0x16B7D, 0x16B8F), (0x16E40, 0x16E96),
      (0x16F00, 0x16F4A), (0x16F50, 0x16F50), (0x16F93, 0x16F9F), (0x16FE0, 0x16FE1),
      (0x16FE3, 0x16FE3), (0x17000, 0x187F7), (0x18800, 0x18CD5), (0x18D00, 0x18D08),
      (0x1AFF0, 0x1AFF3), (0x1AFF5, 0x1AFFB), (0x1AFFD, 0x1AFFE), (0x1B000, 0x1B122),
      (0x1B150, 0x1B152), (0x1B164, 0x1B167), (0x1B170, 0x1B2FB), (0x1BC00, 0x1BC6A),
      (0x1BC70, 0x1BC7C), (0x1BC80, 0x1BC88), (0x1BC90, 0x1BC99), (0x1D2E0, 0x1D2F3),
      (0x1D360, 0x1D378), (0x1D400, 0x1D454), (0x1D456, 0x1D49C), (0x1D49E, 0x1D49F),
      (0x1D4A2, 0x1D4A2), (0x1D4A5, 0x1D4A6), (0x1D4A9, 0x1D4AC), (0x1D4AE, 0x1D4B9),
      (0x1D4BB, 0x1D4BB), (0x1D4BD, 0x1D4C3), (0x1D4C5, 0x1D505), (0x1D507, 0x1D50A),
      (0x1D50D, 0x1D514), (0x1D516, 0x1D51C), (0x1D51E, 0x1D539), (0x1D53B, 0x1D53E),
      (0x1D540, 0x1D544), (0x1D546, 0x1D546), (0x1D54A, 0x1D550), (0x1D552, 0x1D6A5),
      (0x1D6A8, 0x1D6C0), (0x1D6C2, 0x1D6DA), (0x1D6DC, 0x1D6FA), (0x1D6FC, 0x1D714),
      (0x1D716, 0x1D734), (0x1D736, 0x1D74E), (0x1D750, 0x1D76E), (0x1D770, 0x1D788),
      (0x1D78A, 0x1D7A8), (0x1D7AA, 0x1D7C2), (0x1D7C4, 0x1D7CB), (0x1D7CE, 0x1D7FF),
      (0x1DF00, 0x1DF1E), (0x1E100, 0x1E12C), (0x1E137, 0x1E13D), (0x1E140, 0x1E149),
      (0x1E14E, 0x1E14E), (0x1E290, 0x1E2AD), (0x1E2C0, 0x1E2EB), (0x1E2F0, 0x1E2F9),
      (0x1E7E0, 0x1E7E6), (0x1E7E8, 0x1E7EB), (0x1E7ED, 0x1E7EE), (0x1E7F0, 0x1E7FE),
      (0x1E800, 0x1E8C4), (0x1E8C7, 0x1E8CF), (0x1E900, 0x1E943), (0x1E94B, 0x1E94B),
      (0x1E950, 0x1E959), (0x1EC71, 0x1ECAB), (0x1ECAD, 0x1ECAF), (0x1ECB1, 0x1ECB4),
      (0x1ED01, 0x1ED2D), (0x1ED2F, 0x1ED3D), (0x1EE00, 0x1EE03), (0x1EE05, 0x1EE1F),
      (0x1EE21, 0x1EE22), (0x1EE24, 0x1EE24), (0x1EE27, 0x1EE27), (0x1EE29, 0x1EE32),
      (0x1EE34, 0x1EE37), (0x1EE39, 0x1EE39), (0x1EE3B, 0x1EE3B), (0x1EE42, 0x1EE42),
      (0x1EE47, 0x1EE47), (0x1EE49, 0x1EE49), (0x1EE4B, 0x1EE4B), (0x1EE4D, 0x1EE4F),
      (0x1EE51, 0x1EE52), (0x1EE54, 0x1EE54), (0x1EE57, 0x1EE57), (0x1EE59, 0x1EE59),
      (0x1EE5B, 0x1EE5B), (0x1EE5D, 0x1EE5D), (0x1EE5F, 0x1EE5F), (0x1EE61, 0x1EE62),
      (0x1EE64, 0x1EE64), (0x1EE67, 0x1EE6A), (0x1EE6C, 0x1EE72), (0x1EE74, 0x1EE77),
      (0x1EE79, 0x1EE7C), (0x1EE7E, 0x1EE7E), (0x1EE80, 0x1EE89), (0x1EE8B, 0x1EE9B),
      (0x1EEA1, 0x1EEA3), (0x1EEA5, 0x1EEA9), (0x1EEAB, 0x1EEBB), (0x1F100, 0x1F10C),
      (0x1FBF0, 0x1FBF9), (0x20000, 0x2A6DF), (0x2A700, 0x2B738), (0x2B740, 0x2B81D),
      (0x2B820, 0x2CEA1), (0x2CEB0, 0x2EBE0), (0x2F800, 0x2FA1D), (0x30000, 0x3134A)]"

definition upper_runs :: "(int \<times> int \<times> int \<times> int) list" where
  \<comment> \<open>\<^verbatim>\<open>str.upper\<close> where it gives one code point: from, to, step, offset\<close>
  "upper_runs =
     [(0x61, 0x7A, 1, - 0x20), (0xB5, 0xB5, 1, 0x2E7), (0xE0, 0xF6, 1, - 0x20),
      (0xF8, 0xFE, 1, - 0x20), (0xFF, 0xFF, 1, 0x79), (0x101, 0x12F, 2, - 0x1),
      (0x131, 0x131, 1, - 0xE8), (0x133, 0x137, 2, - 0x1), (0x13A, 0x148, 2, - 0x1),
      (0x14B, 0x177, 2, - 0x1), (0x17A, 0x17E, 2, - 0x1), (0x17F, 0x17F, 1, - 0x12C),
      (0x180, 0x180, 1, 0xC3), (0x183, 0x185, 2, - 0x1), (0x188, 0x188, 1, - 0x1),
      (0x18C, 0x18C, 1, - 0x1), (0x192, 0x192, 1, - 0x1), (0x195, 0x195, 1, 0x61),
      (0x199, 0x199, 1, - 0x1), (0x19A, 0x19A, 1, 0xA3), (0x19E, 0x19E, 1, 0x82),
      (0x1A1, 0x1A5, 2, - 0x1), (0x1A8, 0x1A8, 1, - 0x1), (0x1AD, 0x1AD, 1, - 0x1),
      (0x1B0, 0x1B0, 1, - 0x1), (0x1B4, 0x1B6, 2, - 0x1), (0x1B9, 0x1B9, 1, - 0x1),
      (0x1BD, 0x1BD, 1, - 0x1), (0x1BF, 0x1BF, 1, 0x38), (0x1C5, 0x1C5, 1, - 0x1),
      (0x1C6, 0x1C6, 1, - 0x2), (0x1C8, 0x1C8, 1, - 0x1), (0x1C9, 0x1C9, 1, - 0x2),
      (0x1CB, 0x1CB, 1, - 0x1), (0x1CC, 0x1CC, 1, - 0x2), (0x1CE, 0x1DC, 2, - 0x1),
      (0x1DD, 0x1DD, 1, - 0x4F), (0x1DF, 0x1EF, 2, - 0x1), (0x1F2, 0x1F2, 1, - 0x1),
      (0x1F3, 0x1F3, 1, - 0x2), (0x1F5, 0x1F5, 1, - 0x1), (0x1F9, 0x21F, 2, - 0x1),
      (0x223, 0x233, 2, - 0x1), (0x23C, 0x23C, 1, - 0x1), (0x23F, 0x240, 1, 0x2A3F),
      (0x242, 0x242, 1, - 0x1), (0x247, 0x24F, 2, - 0x1), (0x250, 0x250, 1, 0x2A1F),
      (0x251, 0x251, 1, 0x2A1C), (0x252, 0x252, 1, 0x2A1E), (0x253, 0x253, 1, - 0xD2),
      (0x254, 0x254, 1, - 0xCE), (0x256, 0x257, 1, - 0xCD), (0x259, 0x259, 1, - 0xCA),
      (0x25B, 0x25B, 1, - 0xCB), (0x25C, 0x25C, 1, 0xA54F), (0x260, 0x260, 1, - 0xCD),
      (0x261, 0x261, 1, 0xA54B), (0x263, 0x263, 1, - 0xCF), (0x265, 0x265, 1, 0xA528),
      (0x266, 0x266, 1, 0xA544), (0x268, 0x268, 1, - 0xD1), (0x269, 0x269, 1, - 0xD3),
      (0x26A, 0x26A, 1, 0xA544), (0x26B, 0x26B, 1, 0x29F7), (0x26C, 0x26C, 1, 0xA541),
      (0x26F, 0x26F, 1, - 0xD3), (0x271, 0x271, 1, 0x29FD), (0x272, 0x272, 1, - 0xD5),
      (0x275, 0x275, 1, - 0xD6), (0x27D, 0x27D, 1, 0x29E7), (0x280, 0x280, 1, - 0xDA),
      (0x282, 0x282, 1, 0xA543), (0x283, 0x283, 1, - 0xDA), (0x287, 0x287, 1, 0xA52A),
      (0x288, 0x288, 1, - 0xDA), (0x289, 0x289, 1, - 0x45), (0x28A, 0x28B, 1, - 0xD9),
      (0x28C, 0x28C, 1, - 0x47), (0x292, 0x292, 1, - 0xDB), (0x29D, 0x29D, 1, 0xA515),
      (0x29E, 0x29E, 1, 0xA512), (0x345, 0x345, 1, 0x54), (0x371, 0x373, 2, - 0x1),
      (0x377, 0x377, 1, - 0x1), (0x37B, 0x37D, 1, 0x82), (0x3AC, 0x3AC, 1, - 0x26),
      (0x3AD, 0x3AF, 1, - 0x25), (0x3B1, 0x3C1, 1, - 0x20), (0x3C2, 0x3C2, 1, - 0x1F),
      (0x3C3, 0x3CB, 1, - 0x20), (0x3CC, 0x3CC, 1, - 0x40), (0x3CD, 0x3CE, 1, - 0x3F),
      (0x3D0, 0x3D0, 1, - 0x3E), (0x3D1, 0x3D1, 1, - 0x39), (0x3D5, 0x3D5, 1, - 0x2F),
      (0x3D6, 0x3D6, 1, - 0x36), (0x3D7, 0x3D7, 1, - 0x8), (0x3D9, 0x3EF, 2, - 0x1),
      (0x3F0, 0x3F0, 1, - 0x56), (0x3F1, 0x3F1, 1, - 0x50), (0x3F2, 0x3F2, 1, 0x7),
      (0x3F3, 0x3F3, 1, - 0x74), (0x3F5, 0x3F5, 1, - 0x60), (0x3F8, 0x3F8, 1, - 0x1),
      (0x3FB, 0x3FB, 1, - 0x1), (0x430, 0x44F, 1, - 0x20), (0x450, 0x45F, 1, - 0x50),
      (0x461, 0x481, 2, - 0x1), (0x48B, 0x4BF, 2, - 0x1), (0x4C2, 0x4CE, 2, - 0x1),
      (0x4CF, 0x4CF, 1, - 0xF), (0x4D1, 0x52F, 2, - 0x1), (0x561, 0x586, 1, - 0x30),
      (0x10D0, 0x10FA, 1, 0xBC0), (0x10FD, 0x10FF, 1, 0xBC0), (0x13F8, 0x13FD, 1, - 0x8),
      (0x1C80, 0x1C80, 1, - 0x186E), (0x1C81, 0x1C81, 1, - 0x186D),
      (0x1C82, 0x1C82, 1, - 0x1864), (0x1C83, 0x1C84, 1, - 0x1862),
      (0x1C85, 0x1C85, 1, - 0x1863), (0x1C86, 0x1C86, 1, - 0x185C),
      (0x1C87, 0x1C87, 1, - 0x1825), (0x1C88, 0x1C88, 1, 0x89C2), (0x1D79, 0x1D79, 1, 0x8A04),
      (0x1D7D, 0x1D7D, 1, 0xEE6), (0x1D8E, 0x1D8E, 1, 0x8A38), (0x1E01, 0x1E95, 2, - 0x1),
      (0x1E9B, 0x1E9B, 1, - 0x3B), (0x1EA1, 0x1EFF, 2, - 0x1), (0x1F00, 0x1F07, 1, 0x8),
      (0x1F10, 0x1F15, 1, 0x8), (0x1F20, 0x1F27, 1, 0x8), (0x1F30, 0x1F37, 1, 0x8),
      (0x1F40, 0x1F45, 1, 0x8), (0x1F51, 0x1F57, 2, 0x8), (0x1F60, 0x1F67, 1, 0x8),
      (0x1F70, 0x1F71, 1, 0x4A), (0x1F72, 0x1F75, 1, 0x56), (0x1F76, 0x1F77, 1, 0x64),
      (0x1F78, 0x1F79, 1, 0x80), (0x1F7A, 0x1F7B, 1, 0x70), (0x1F7C, 0x1F7D, 1, 0x7E),
      (0x1FB0, 0x1FB1, 1, 0x8), (0x1FBE, 0x1FBE, 1, - 0x1C25), (0x1FD0, 0x1FD1, 1, 0x8),
      (0x1FE0, 0x1FE1, 1, 0x8), (0x1FE5, 0x1FE5, 1, 0x7), (0x214E, 0x214E, 1, - 0x1C),
      (0x2170, 0x217F, 1, - 0x10), (0x2184, 0x2184, 1, - 0x1), (0x24D0, 0x24E9, 1, - 0x1A),
      (0x2C30, 0x2C5F, 1, - 0x30), (0x2C61, 0x2C61, 1, - 0x1), (0x2C65, 0x2C65, 1, - 0x2A2B),
      (0x2C66, 0x2C66, 1, - 0x2A28), (0x2C68, 0x2C6C, 2, - 0x1), (0x2C73, 0x2C73, 1, - 0x1),
      (0x2C76, 0x2C76, 1, - 0x1), (0x2C81, 0x2CE3, 2, - 0x1), (0x2CEC, 0x2CEE, 2, - 0x1),
      (0x2CF3, 0x2CF3, 1, - 0x1), (0x2D00, 0x2D25, 1, - 0x1C60), (0x2D27, 0x2D27, 1, - 0x1C60),
      (0x2D2D, 0x2D2D, 1, - 0x1C60), (0xA641, 0xA66D, 2, - 0x1), (0xA681, 0xA69B, 2, - 0x1),
      (0xA723, 0xA72F, 2, - 0x1), (0xA733, 0xA76F, 2, - 0x1), (0xA77A, 0xA77C, 2, - 0x1),
      (0xA77F, 0xA787, 2, - 0x1), (0xA78C, 0xA78C, 1, - 0x1), (0xA791, 0xA793, 2, - 0x1),
      (0xA794, 0xA794, 1, 0x30), (0xA797, 0xA7A9, 2, - 0x1), (0xA7B5, 0xA7C3, 2, - 0x1),
      (0xA7C8, 0xA7CA, 2, - 0x1), (0xA7D1, 0xA7D1, 1, - 0x1), (0xA7D7, 0xA7D9, 2, - 0x1),
      (0xA7F6, 0xA7F6, 1, - 0x1), (0xAB53, 0xAB53, 1, - 0x3A0), (0xAB70, 0xABBF, 1, - 0x97D0),
      (0xFF41, 0xFF5A, 1, - 0x20), (0x10428, 0x1044F, 1, - 0x28), (0x104D8, 0x104FB, 1, - 0x28),
      (0x10597, 0x105BB, 2, - 0x27), (0x10598, 0x105A0, 2, - 0x27),
      (0x105A4, 0x105B0, 2, - 0x27), (0x105B4, 0x105B8, 2, - 0x27),
      (0x105BC, 0x105BC, 1, - 0x27), (0x10CC0, 0x10CF2, 1, - 0x40),
      (0x118C0, 0x118DF, 1, - 0x20), (0x16E60, 0x16E7F, 1, - 0x20), (0x1E922, 0x1E943, 1, - 0x22)]"

definition upper_special :: "(int \<times> int list) list" where
  \<comment> \<open>\<^verbatim>\<open>str.upper\<close> where it gives several code points\<close>
  "upper_special =
     [(0xDF, [0x53, 0x53]), (0x149, [0x2BC, 0x4E]), (0x1F0, [0x4A, 0x30C]),
      (0x390, [0x399, 0x308, 0x301]), (0x3B0, [0x3A5, 0x308, 0x301]), (0x587, [0x535, 0x552]),
      (0x1E96, [0x48, 0x331]), (0x1E97, [0x54, 0x308]), (0x1E98, [0x57, 0x30A]),
      (0x1E99, [0x59, 0x30A]), (0x1E9A, [0x41, 0x2BE]), (0x1F50, [0x3A5, 0x313]),
      (0x1F52, [0x3A5, 0x313, 0x300]), (0x1F54, [0x3A5, 0x313, 0x301]),
      (0x1F56, [0x3A5, 0x313, 0x342]), (0x1F80, [0x1F08, 0x399]), (0x1F81, [0x1F09, 0x399]),
      (0x1F82, [0x1F0A, 0x399]), (0x1F83, [0x1F0B, 0x399]), (0x1F84, [0x1F0C, 0x399]),
      (0x1F85, [0x1F0D, 0x399]), (0x1F86, [0x1F0E, 0x399]), (0x1F87, [0x1F0F, 0x399]),
      (0x1F88, [0x1F08, 0x399]), (0x1F89, [0x1F09, 0x399]), (0x1F8A, [0x1F0A, 0x399]),
      (0x1F8B, [0x1F0B, 0x399]), (0x1F8C, [0x1F0C, 0x399]), (0x1F8D, [0x1F0D, 0x399]),
      (0x1F8E, [0x1F0E, 0x399]), (0x1F8F, [0x1F0F, 0x399]), (0x1F90, [0x1F28, 0x399]),
      (0x1F91, [0x1F29, 0x399]), (0x1F92, [0x1F2A, 0x399]), (0x1F93, [0x1F2B, 0x399]),
      (0x1F94, [0x1F2C, 0x399]), (0x1F95, [0x1F2D, 0x399]), (0x1F96, [0x1F2E, 0x399]),
      (0x1F97, [0x1F2F, 0x399]), (0x1F98, [0x1F28, 0x399]), (0x1F99, [0x1F29, 0x399]),
      (0x1F9A, [0x1F2A, 0x399]), (0x1F9B, [0x1F2B, 0x399]), (0x1F9C, [0x1F2C, 0x399]),
      (0x1F9D, [0x1F2D, 0x399]), (0x1F9E, [0x1F2E, 0x399]), (0x1F9F, [0x1F2F, 0x399]),
      (0x1FA0, [0x1F68, 0x399]), (0x1FA1, [0x1F69, 0x399]), (0x1FA2, [0x1F6A, 0x399]),
      (0x1FA3, [0x1F6B, 0x399]), (0x1FA4, [0x1F6C, 0x399]), (0x1FA5, [0x1F6D, 0x399]),
      (0x1FA6, [0x1F6E, 0x399]), (0x1FA7, [0x1F6F, 0x399]), (0x1FA8, [0x1F68, 0x399]),
      (0x1FA9, [0x1F69, 0x399]), (0x1FAA, [0x1F6A, 0x399]), (0x1FAB, [0x1F6B, 0x399]),
      (0x1FAC, [0x1F6C, 0x399]), (0x1FAD, [0x1F6D, 0x399]), (0x1FAE, [0x1F6E, 0x399]),
      (0x1FAF, [0x1F6F, 0x399]), (0x1FB2, [0x1FBA, 0x399]), (0x1FB3, [0x391, 0x399]),
      (0x1FB4, [0x386, 0x399]), (0x1FB6, [0x391, 0x342]), (0x1FB7, [0x391, 0x342, 0x399]),
      (0x1FBC, [0x391, 0x399]), (0x1FC2, [0x1FCA, 0x399]), (0x1FC3, [0x397, 0x399]),
      (0x1FC4, [0x389, 0x399]), (0x1FC6, [0x397, 0x342]), (0x1FC7, [0x397, 0x342, 0x399]),
      (0x1FCC, [0x397, 0x399]), (0x1FD2, [0x399, 0x308, 0x300]), (0x1FD3, [0x399, 0x308, 0x301]),
      (0x1FD6, [0x399, 0x342]), (0x1FD7, [0x399, 0x308, 0x342]), (0x1FE2, [0x3A5, 0x308, 0x300]),
      (0x1FE3, [0x3A5, 0x308, 0x301]), (0x1FE4, [0x3A1, 0x313]), (0x1FE6, [0x3A5, 0x342]),
      (0x1FE7, [0x3A5, 0x308, 0x342]), (0x1FF2, [0x1FFA, 0x399]), (0x1FF3, [0x3A9, 0x399]),
      (0x1FF4, [0x38F, 0x399]), (0x1FF6, [0x3A9, 0x342]), (0x1FF7, [0x3A9, 0x342, 0x399]),
      (0x1FFC, [0x3A9, 0x399]), (0xFB00, [0x46, 0x46]), (0xFB01, [0x46, 0x49]),
      (0xFB02, [0x46, 0x4C]), (0xFB03, [0x46, 0x46, 0x49]), (0xFB04, [0x46, 0x46, 0x4C]),
      (0xFB05, [0x53, 0x54]), (0xFB06, [0x53, 0x54]), (0xFB13, [0x544, 0x546]),
      (0xFB14, [0x544, 0x535]), (0xFB15, [0x544, 0x53B]), (0xFB16, [0x54E, 0x546]),
      (0xFB17, [0x544, 0x53D])]"

definition lower_runs :: "(int \<times> int \<times> int \<times> int) list" where
  \<comment> \<open>\<^verbatim>\<open>str.lower\<close> where it gives one code point: from, to, step, offset\<close>
  "lower_runs =
     [(0x41, 0x5A, 1, 0x20), (0xC0, 0xD6, 1, 0x20), (0xD8, 0xDE, 1, 0x20),
      (0x100, 0x12E, 2, 0x1), (0x132, 0x136, 2, 0x1), (0x139, 0x147, 2, 0x1),
      (0x14A, 0x176, 2, 0x1), (0x178, 0x178, 1, - 0x79), (0x179, 0x17D, 2, 0x1),
      (0x181, 0x181, 1, 0xD2), (0x182, 0x184, 2, 0x1), (0x186, 0x186, 1, 0xCE),
      (0x187, 0x187, 1, 0x1), (0x189, 0x18A, 1, 0xCD), (0x18B, 0x18B, 1, 0x1),
      (0x18E, 0x18E, 1, 0x4F), (0x18F, 0x18F, 1, 0xCA), (0x190, 0x190, 1, 0xCB),
      (0x191, 0x191, 1, 0x1), (0x193, 0x193, 1, 0xCD), (0x194, 0x194, 1, 0xCF),
      (0x196, 0x196, 1, 0xD3), (0x197, 0x197, 1, 0xD1), (0x198, 0x198, 1, 0x1),
      (0x19C, 0x19C, 1, 0xD3), (0x19D, 0x19D, 1, 0xD5), (0x19F, 0x19F, 1, 0xD6),
      (0x1A0, 0x1A4, 2, 0x1), (0x1A6, 0x1A6, 1, 0xDA), (0x1A7, 0x1A7, 1, 0x1),
      (0x1A9, 0x1A9, 1, 0xDA), (0x1AC, 0x1AC, 1, 0x1), (0x1AE, 0x1AE, 1, 0xDA),
      (0x1AF, 0x1AF, 1, 0x1), (0x1B1, 0x1B2, 1, 0xD9), (0x1B3, 0x1B5, 2, 0x1),
      (0x1B7, 0x1B7, 1, 0xDB), (0x1B8, 0x1B8, 1, 0x1), (0x1BC, 0x1BC, 1, 0x1),
      (0x1C4, 0x1C4, 1, 0x2), (0x1C5, 0x1C5, 1, 0x1), (0x1C7, 0x1C7, 1, 0x2),
      (0x1C8, 0x1C8, 1, 0x1), (0x1CA, 0x1CA, 1, 0x2), (0x1CB, 0x1DB, 2, 0x1),
      (0x1DE, 0x1EE, 2, 0x1), (0x1F1, 0x1F1, 1, 0x2), (0x1F2, 0x1F4, 2, 0x1),
      (0x1F6, 0x1F6, 1, - 0x61), (0x1F7, 0x1F7, 1, - 0x38), (0x1F8, 0x21E, 2, 0x1),
      (0x220, 0x220, 1, - 0x82), (0x222, 0x232, 2, 0x1), (0x23A, 0x23A, 1, 0x2A2B),
      (0x23B, 0x23B, 1, 0x1), (0x23D, 0x23D, 1, - 0xA3), (0x23E, 0x23E, 1, 0x2A28),
      (0x241, 0x241, 1, 0x1), (0x243, 0x243, 1, - 0xC3), (0x244, 0x244, 1, 0x45),
      (0x245, 0x245, 1, 0x47), (0x246, 0x24E, 2, 0x1), (0x370, 0x372, 2, 0x1),
      (0x376, 0x376, 1, 0x1), (0x37F, 0x37F, 1, 0x74), (0x386, 0x386, 1, 0x26),
      (0x388, 0x38A, 1, 0x25), (0x38C, 0x38C, 1, 0x40), (0x38E, 0x38F, 1, 0x3F),
      (0x391, 0x3A1, 1, 0x20), (0x3A3, 0x3AB, 1, 0x20), (0x3CF, 0x3CF, 1, 0x8),
      (0x3D8, 0x3EE, 2, 0x1), (0x3F4, 0x3F4, 1, - 0x3C), (0x3F7, 0x3F7, 1, 0x1),
      (0x3F9, 0x3F9, 1, - 0x7), (0x3FA, 0x3FA, 1, 0x1), (0x3FD, 0x3FF, 1, - 0x82),
      (0x400, 0x40F, 1, 0x50), (0x410, 0x42F, 1, 0x20), (0x460, 0x480, 2, 0x1),
      (0x48A, 0x4BE, 2, 0x1), (0x4C0, 0x4C0, 1, 0xF), (0x4C1, 0x4CD, 2, 0x1),
      (0x4D0, 0x52E, 2, 0x1), (0x531, 0x556, 1, 0x30), (0x10A0, 0x10C5, 1, 0x1C60),
      (0x10C7, 0x10C7, 1, 0x1C60), (0x10CD, 0x10CD, 1, 0x1C60), (0x13A0, 0x13EF, 1, 0x97D0),
      (0x13F0, 0x13F5, 1, 0x8), (0x1C90, 0x1CBA, 1, - 0xBC0), (0x1CBD, 0x1CBF, 1, - 0xBC0),
      (0x1E00, 0x1E94, 2, 0x1), (0x1E9E, 0x1E9E, 1, - 0x1DBF), (0x1EA0, 0x1EFE, 2, 0x1),
      (0x1F08, 0x1F0F, 1, - 0x8), (0x1F18, 0x1F1D, 1, - 0x8), (0x1F28, 0x1F2F, 1, - 0x8),
      (0x1F38, 0x1F3F, 1, - 0x8), (0x1F48, 0x1F4D, 1, - 0x8), (0x1F59, 0x1F5F, 2, - 0x8),
      (0x1F68, 0x1F6F, 1, - 0x8), (0x1F88, 0x1F8F, 1, - 0x8), (0x1F98, 0x1F9F, 1, - 0x8),
      (0x1FA8, 0x1FAF, 1, - 0x8), (0x1FB8, 0x1FB9, 1, - 0x8), (0x1FBA, 0x1FBB, 1, - 0x4A),
      (0x1FBC, 0x1FBC, 1, - 0x9), (0x1FC8, 0x1FCB, 1, - 0x56), (0x1FCC, 0x1FCC, 1, - 0x9),
      (0x1FD8, 0x1FD9, 1, - 0x8), (0x1FDA, 0x1FDB, 1, - 0x64), (0x1FE8, 0x1FE9, 1, - 0x8),
      (0x1FEA, 0x1FEB, 1, - 0x70), (0x1FEC, 0x1FEC, 1, - 0x7), (0x1FF8, 0x1FF9, 1, - 0x80),
      (0x1FFA, 0x1FFB, 1, - 0x7E), (0x1FFC, 0x1FFC, 1, - 0x9), (0x2126, 0x2126, 1, - 0x1D5D),
      (0x212A, 0x212A, 1, - 0x20BF), (0x212B, 0x212B, 1, - 0x2046), (0x2132, 0x2132, 1, 0x1C),
      (0x2160, 0x216F, 1, 0x10), (0x2183, 0x2183, 1, 0x1), (0x24B6, 0x24CF, 1, 0x1A),
      (0x2C00, 0x2C2F, 1, 0x30), (0x2C60, 0x2C60, 1, 0x1), (0x2C62, 0x2C62, 1, - 0x29F7),
      (0x2C63, 0x2C63, 1, - 0xEE6), (0x2C64, 0x2C64, 1, - 0x29E7), (0x2C67, 0x2C6B, 2, 0x1),
      (0x2C6D, 0x2C6D, 1, - 0x2A1C), (0x2C6E, 0x2C6E, 1, - 0x29FD),
      (0x2C6F, 0x2C6F, 1, - 0x2A1F), (0x2C70, 0x2C70, 1, - 0x2A1E), (0x2C72, 0x2C72, 1, 0x1),
      (0x2C75, 0x2C75, 1, 0x1), (0x2C7E, 0x2C7F, 1, - 0x2A3F), (0x2C80, 0x2CE2, 2, 0x1),
      (0x2CEB, 0x2CED, 2, 0x1), (0x2CF2, 0x2CF2, 1, 0x1), (0xA640, 0xA66C, 2, 0x1),
      (0xA680, 0xA69A, 2, 0x1), (0xA722, 0xA72E, 2, 0x1), (0xA732, 0xA76E, 2, 0x1),
      (0xA779, 0xA77B, 2, 0x1), (0xA77D, 0xA77D, 1, - 0x8A04), (0xA77E, 0xA786, 2, 0x1),
      (0xA78B, 0xA78B, 1, 0x1), (0xA78D, 0xA78D, 1, - 0xA528), (0xA790, 0xA792, 2, 0x1),
      (0xA796, 0xA7A8, 2, 0x1), (0xA7AA, 0xA7AA, 1, - 0xA544), (0xA7AB, 0xA7AB, 1, - 0xA54F),
      (0xA7AC, 0xA7AC, 1, - 0xA54B), (0xA7AD, 0xA7AD, 1, - 0xA541),
      (0xA7AE, 0xA7AE, 1, - 0xA544), (0xA7B0, 0xA7B0, 1, - 0xA512),
      (0xA7B1, 0xA7B1, 1, - 0xA52A), (0xA7B2, 0xA7B2, 1, - 0xA515), (0xA7B3, 0xA7B3, 1, 0x3A0),
      (0xA7B4, 0xA7C2, 2, 0x1), (0xA7C4, 0xA7C4, 1, - 0x30), (0xA7C5, 0xA7C5, 1, - 0xA543),
      (0xA7C6, 0xA7C6, 1, - 0x8A38), (0xA7C7, 0xA7C9, 2, 0x1), (0xA7D0, 0xA7D0, 1, 0x1),
      (0xA7D6, 0xA7D8, 2, 0x1), (0xA7F5, 0xA7F5, 1, 0x1), (0xFF21, 0xFF3A, 1, 0x20),
      (0x10400, 0x10427, 1, 0x28), (0x104B0, 0x104D3, 1, 0x28), (0x10570, 0x10594, 2, 0x27),
      (0x10571, 0x10579, 2, 0x27), (0x1057D, 0x10589, 2, 0x27), (0x1058D, 0x10591, 2, 0x27),
      (0x10595, 0x10595, 1, 0x27), (0x10C80, 0x10CB2, 1, 0x40), (0x118A0, 0x118BF, 1, 0x20),
      (0x16E40, 0x16E5F, 1, 0x20), (0x1E900, 0x1E921, 1, 0x22)]"

definition lower_special :: "(int \<times> int list) list" where
  \<comment> \<open>\<^verbatim>\<open>str.lower\<close> where it gives several code points\<close>
  "lower_special =
     [(0x130, [0x69, 0x307])]"

definition case_ignorable_ranges :: "(int \<times> int) list" where
  \<comment> \<open>the code points with the property Case_Ignorable\<close>
  "case_ignorable_ranges =
     [(0x27, 0x27), (0x2E, 0x2E), (0x3A, 0x3A), (0x5E, 0x5E), (0x60, 0x60), (0xA8, 0xA8),
      (0xAD, 0xAD), (0xAF, 0xAF), (0xB4, 0xB4), (0xB7, 0xB8), (0x2B0, 0x36F), (0x374, 0x375),
      (0x37A, 0x37A), (0x384, 0x385), (0x387, 0x387), (0x483, 0x489), (0x559, 0x559),
      (0x55F, 0x55F), (0x591, 0x5BD), (0x5BF, 0x5BF), (0x5C1, 0x5C2), (0x5C4, 0x5C5),
      (0x5C7, 0x5C7), (0x5F4, 0x5F4), (0x600, 0x605), (0x610, 0x61A), (0x61C, 0x61C),
      (0x640, 0x640), (0x64B, 0x65F), (0x670, 0x670), (0x6D6, 0x6DD), (0x6DF, 0x6E8),
      (0x6EA, 0x6ED), (0x70F, 0x70F), (0x711, 0x711), (0x730, 0x74A), (0x7A6, 0x7B0),
      (0x7EB, 0x7F5), (0x7FA, 0x7FA), (0x7FD, 0x7FD), (0x816, 0x82D), (0x859, 0x85B),
      (0x888, 0x888), (0x890, 0x891), (0x898, 0x89F), (0x8C9, 0x902), (0x93A, 0x93A),
      (0x93C, 0x93C), (0x941, 0x948), (0x94D, 0x94D), (0x951, 0x957), (0x962, 0x963),
      (0x971, 0x971), (0x981, 0x981), (0x9BC, 0x9BC), (0x9C1, 0x9C4), (0x9CD, 0x9CD),
      (0x9E2, 0x9E3), (0x9FE, 0x9FE), (0xA01, 0xA02), (0xA3C, 0xA3C), (0xA41, 0xA42),
      (0xA47, 0xA48), (0xA4B, 0xA4D), (0xA51, 0xA51), (0xA70, 0xA71), (0xA75, 0xA75),
      (0xA81, 0xA82), (0xABC, 0xABC), (0xAC1, 0xAC5), (0xAC7, 0xAC8), (0xACD, 0xACD),
      (0xAE2, 0xAE3), (0xAFA, 0xAFF), (0xB01, 0xB01), (0xB3C, 0xB3C), (0xB3F, 0xB3F),
      (0xB41, 0xB44), (0xB4D, 0xB4D), (0xB55, 0xB56), (0xB62, 0xB63), (0xB82, 0xB82),
      (0xBC0, 0xBC0), (0xBCD, 0xBCD), (0xC00, 0xC00), (0xC04, 0xC04), (0xC3C, 0xC3C),
      (0xC3E, 0xC40), (0xC46, 0xC48), (0xC4A, 0xC4D), (0xC55, 0xC56), (0xC62, 0xC63),
      (0xC81, 0xC81), (0xCBC, 0xCBC), (0xCBF, 0xCBF), (0xCC6, 0xCC6), (0xCCC, 0xCCD),
      (0xCE2, 0xCE3), (0xD00, 0xD01), (0xD3B, 0xD3C), (0xD41, 0xD44), (0xD4D, 0xD4D),
      (0xD62, 0xD63), (0xD81, 0xD81), (0xDCA, 0xDCA), (0xDD2, 0xDD4), (0xDD6, 0xDD6),
      (0xE31, 0xE31), (0xE34, 0xE3A), (0xE46, 0xE4E), (0xEB1, 0xEB1), (0xEB4, 0xEBC),
      (0xEC6, 0xEC6), (0xEC8, 0xECD), (0xF18, 0xF19), (0xF35, 0xF35), (0xF37, 0xF37),
      (0xF39, 0xF39), (0xF71, 0xF7E), (0xF80, 0xF84), (0xF86, 0xF87), (0xF8D, 0xF97),
      (0xF99, 0xFBC), (0xFC6, 0xFC6), (0x102D, 0x1030), (0x1032, 0x1037), (0x1039, 0x103A),
      (0x103D, 0x103E), (0x1058, 0x1059), (0x105E, 0x1060), (0x1071, 0x1074), (0x1082, 0x1082),
      (0x1085, 0x1086), (0x108D, 0x108D), (0x109D, 0x109D), (0x10FC, 0x10FC), (0x135D, 0x135F),
      (0x1712, 0x1714), (0x1732, 0x1733), (0x1752, 0x1753), (0x1772, 0x1773), (0x17B4, 0x17B5),
      (0x17B7, 0x17BD), (0x17C6, 0x17C6), (0x17C9, 0x17D3), (0x17D7, 0x17D7), (0x17DD, 0x17DD),
      (0x180B, 0x180F), (0x1843, 0x1843), (0x1885, 0x1886), (0x18A9, 0x18A9), (0x1920, 0x1922),
      (0x1927, 0x1928), (0x1932, 0x1932), (0x1939, 0x193B), (0x1A17, 0x1A18), (0x1A1B, 0x1A1B),
      (0x1A56, 0x1A56), (0x1A58, 0x1A5E), (0x1A60, 0x1A60), (0x1A62, 0x1A62), (0x1A65, 0x1A6C),
      (0x1A73, 0x1A7C), (0x1A7F, 0x1A7F), (0x1AA7, 0x1AA7), (0x1AB0, 0x1ACE), (0x1B00, 0x1B03),
      (0x1B34, 0x1B34), (0x1B36, 0x1B3A), (0x1B3C, 0x1B3C), (0x1B42, 0x1B42), (0x1B6B, 0x1B73),
      (0x1B80, 0x1B81), (0x1BA2, 0x1BA5), (0x1BA8, 0x1BA9), (0x1BAB, 0x1BAD), (0x1BE6, 0x1BE6),
      (0x1BE8, 0x1BE9), (0x1BED, 0x1BED), (0x1BEF, 0x1BF1), (0x1C2C, 0x1C33), (0x1C36, 0x1C37),
      (0x1C78, 0x1C7D), (0x1CD0, 0x1CD2), (0x1CD4, 0x1CE0), (0x1CE2, 0x1CE8), (0x1CED, 0x1CED),
      (0x1CF4, 0x1CF4), (0x1CF8, 0x1CF9), (0x1D2C, 0x1D6A), (0x1D78, 0x1D78), (0x1D9B, 0x1DFF),
      (0x1FBD, 0x1FBD), (0x1FBF, 0x1FC1), (0x1FCD, 0x1FCF), (0x1FDD, 0x1FDF), (0x1FED, 0x1FEF),
      (0x1FFD, 0x1FFE), (0x200B, 0x200F), (0x2018, 0x2019), (0x2024, 0x2024), (0x2027, 0x2027),
      (0x202A, 0x202E), (0x2060, 0x2064), (0x2066, 0x206F), (0x2071, 0x2071), (0x207F, 0x207F),
      (0x2090, 0x209C), (0x20D0, 0x20F0), (0x2C7C, 0x2C7D), (0x2CEF, 0x2CF1), (0x2D6F, 0x2D6F),
      (0x2D7F, 0x2D7F), (0x2DE0, 0x2DFF), (0x2E2F, 0x2E2F), (0x3005, 0x3005), (0x302A, 0x302D),
      (0x3031, 0x3035), (0x303B, 0x303B), (0x3099, 0x309E), (0x30FC, 0x30FE), (0xA015, 0xA015),
      (0xA4F8, 0xA4FD), (0xA60C, 0xA60C), (0xA66F, 0xA672), (0xA674, 0xA67D), (0xA67F, 0xA67F),
      (0xA69C, 0xA69F), (0xA6F0, 0xA6F1), (0xA700, 0xA721), (0xA770, 0xA770), (0xA788, 0xA78A),
      (0xA7F2, 0xA7F4), (0xA7F8, 0xA7F9), (0xA802, 0xA802), (0xA806, 0xA806), (0xA80B, 0xA80B),
      (0xA825, 0xA826), (0xA82C, 0xA82C), (0xA8C4, 0xA8C5), (0xA8E0, 0xA8F1), (0xA8FF, 0xA8FF),
      (0xA926, 0xA92D), (0xA947, 0xA951), (0xA980, 0xA982), (0xA9B3, 0xA9B3), (0xA9B6, 0xA9B9),
      (0xA9BC, 0xA9BD), (0xA9CF, 0xA9CF), (0xA9E5, 0xA9E6), (0xAA29, 0xAA2E), (0xAA31, 0xAA32),
      (0xAA35, 0xAA36), (0xAA43, 0xAA43), (0xAA4C, 0xAA4C), (0xAA70, 0xAA70), (0xAA7C, 0xAA7C),
      (0xAAB0, 0xAAB0), (0xAAB2, 0xAAB4), (0xAAB7, 0xAAB8), (0xAABE, 0xAABF), (0xAAC1, 0xAAC1),
      (0xAADD, 0xAADD), (0xAAEC, 0xAAED), (0xAAF3, 0xAAF4), (0xAAF6, 0xAAF6), (0xAB5B, 0xAB5F),
      (0xAB69, 0xAB6B), (0xABE5, 0xABE5), (0xABE8, 0xABE8), (0xABED, 0xABED), (0xFB1E, 0xFB1E),
      (0xFBB2, 0xFBC2), (0xFE00, 0xFE0F), (0xFE13, 0xFE13), (0xFE20, 0xFE2F), (0xFE52, 0xFE52),
      (0xFE55, 0xFE55), (0xFEFF, 0xFEFF), (0xFF07, 0xFF07), (0xFF0E, 0xFF0E), (0xFF1A, 0xFF1A),
      (0xFF3E, 0xFF3E), (0xFF40, 0xFF40), (0xFF70, 0xFF70), (0xFF9E, 0xFF9F), (0xFFE3, 0xFFE3),
      (0xFFF9, 0xFFFB), (0x101FD, 0x101FD), (0x102E0, 0x102E0), (0x10376, 0x1037A),
      (0x10780, 0x10785), (0x10787, 0x107B0), (0x107B2, 0x107BA), (0x10A01, 0x10A03),
      (0x10A05, 0x10A06), (0x10A0C, 0x10A0F), (0x10A38, 0x10A3A), (0x10A3F, 0x10A3F),
      (0x10AE5, 0x10AE6), (0x10D24, 0x10D27), (0x10EAB, 0x10EAC), (0x10F46, 0x10F50),
      (0x10F82, 0x10F85), (0x11001, 0x11001), (0x11038, 0x11046), (0x11070, 0x11070),
      (0x11073, 0x11074), (0x1107F, 0x11081), (0x110B3, 0x110B6), (0x110B9, 0x110BA),
      (0x110BD, 0x110BD), (0x110C2, 0x110C2), (0x110CD, 0x110CD), (0x11100, 0x11102),
      (0x11127, 0x1112B), (0x1112D, 0x11134), (0x11173, 0x11173), (0x11180, 0x11181),
      (0x111B6, 0x111BE), (0x111C9, 0x111CC), (0x111CF, 0x111CF), (0x1122F, 0x11231),
      (0x11234, 0x11234), (0x11236, 0x11237), (0x1123E, 0x1123E), (0x112DF, 0x112DF),
      (0x112E3, 0x112EA), (0x11300, 0x11301), (0x1133B, 0x1133C), (0x11340, 0x11340),
      (0x11366, 0x1136C), (0x11370, 0x11374), (0x11438, 0x1143F), (0x11442, 0x11444),
      (0x11446, 0x11446), (0x1145E, 0x1145E), (0x114B3, 0x114B8), (0x114BA, 0x114BA),
      (0x114BF, 0x114C0), (0x114C2, 0x114C3), (0x115B2, 0x115B5), (0x115BC, 0x115BD),
      (0x115BF, 0x115C0), (0x115DC, 0x115DD), (0x11633, 0x1163A), (0x1163D, 0x1163D),
      (0x1163F, 0x11640), (0x116AB, 0x116AB), (0x116AD, 0x116AD), (0x116B0, 0x116B5),
      (0x116B7, 0x116B7), (0x1171D, 0x1171F), (0x11722, 0x11725), (0x11727, 0x1172B),
      (0x1182F, 0x11837), (0x11839, 0x1183A), (0x1193B, 0x1193C), (0x1193E, 0x1193E),
      (0x11943, 0x11943), (0x119D4, 0x119D7), (0x119DA, 0x119DB), (0x119E0, 0x119E0),
      (0x11A01, 0x11A0A), (0x11A33, 0x11A38), (0x11A3B, 0x11A3E), (0x11A47, 0x11A47),
      (0x11A51, 0x11A56), (0x11A59, 0x11A5B), (0x11A8A, 0x11A96), (0x11A98, 0x11A99),
      (0x11C30, 0x11C36), (0x11C38, 0x11C3D), (0x11C3F, 0x11C3F), (0x11C92, 0x11CA7),
      (0x11CAA, 0x11CB0), (0x11CB2, 0x11CB3), (0x11CB5, 0x11CB6), (0x11D31, 0x11D36),
      (0x11D3A, 0x11D3A), (0x11D3C, 0x11D3D), (0x11D3F, 0x11D45), (0x11D47, 0x11D47),
      (0x11D90, 0x11D91), (0x11D95, 0x11D95), (0x11D97, 0x11D97), (0x11EF3, 0x11EF4),
      (0x13430, 0x13438), (0x16AF0, 0x16AF4), (0x16B30, 0x16B36), (0x16B40, 0x16B43),
      (0x16F4F, 0x16F4F), (0x16F8F, 0x16F9F), (0x16FE0, 0x16FE1), (0x16FE3, 0x16FE4),
      (0x1AFF0, 0x1AFF3), (0x1AFF5, 0x1AFFB), (0x1AFFD, 0x1AFFE), (0x1BC9D, 0x1BC9E),
      (0x1BCA0, 0x1BCA3), (0x1CF00, 0x1CF2D), (0x1CF30, 0x1CF46), (0x1D167, 0x1D169),
      (0x1D173, 0x1D182), (0x1D185, 0x1D18B), (0x1D1AA, 0x1D1AD), (0x1D242, 0x1D244),
      (0x1DA00, 0x1DA36), (0x1DA3B, 0x1DA6C), (0x1DA75, 0x1DA75), (0x1DA84, 0x1DA84),
      (0x1DA9B, 0x1DA9F), (0x1DAA1, 0x1DAAF), (0x1E000, 0x1E006), (0x1E008, 0x1E018),
      (0x1E01B, 0x1E021), (0x1E023, 0x1E024), (0x1E026, 0x1E02A), (0x1E130, 0x1E13D),
      (0x1E2AE, 0x1E2AE), (0x1E2EC, 0x1E2EF), (0x1E8D0, 0x1E8D6), (0x1E944, 0x1E94B),
      (0x1F3FB, 0x1F3FF), (0xE0001, 0xE0001), (0xE0020, 0xE007F), (0xE0100, 0xE01EF)]"

definition cased_ranges :: "(int \<times> int) list" where
  \<comment> \<open>the code points with the property Cased and without Case_Ignorable\<close>
  "cased_ranges =
     [(0x41, 0x5A), (0x61, 0x7A), (0xAA, 0xAA), (0xB5, 0xB5), (0xBA, 0xBA), (0xC0, 0xD6),
      (0xD8, 0xF6), (0xF8, 0x1BA), (0x1BC, 0x1BF), (0x1C4, 0x293), (0x295, 0x2AF),
      (0x370, 0x373), (0x376, 0x377), (0x37B, 0x37D), (0x37F, 0x37F), (0x386, 0x386),
      (0x388, 0x38A), (0x38C, 0x38C), (0x38E, 0x3A1), (0x3A3, 0x3F5), (0x3F7, 0x481),
      (0x48A, 0x52F), (0x531, 0x556), (0x560, 0x588), (0x10A0, 0x10C5), (0x10C7, 0x10C7),
      (0x10CD, 0x10CD), (0x10D0, 0x10FA), (0x10FD, 0x10FF), (0x13A0, 0x13F5), (0x13F8, 0x13FD),
      (0x1C80, 0x1C88), (0x1C90, 0x1CBA), (0x1CBD, 0x1CBF), (0x1D00, 0x1D2B), (0x1D6B, 0x1D77),
      (0x1D79, 0x1D9A), (0x1E00, 0x1F15), (0x1F18, 0x1F1D), (0x1F20, 0x1F45), (0x1F48, 0x1F4D),
      (0x1F50, 0x1F57), (0x1F59, 0x1F59), (0x1F5B, 0x1F5B), (0x1F5D, 0x1F5D), (0x1F5F, 0x1F7D),
      (0x1F80, 0x1FB4), (0x1FB6, 0x1FBC), (0x1FBE, 0x1FBE), (0x1FC2, 0x1FC4), (0x1FC6, 0x1FCC),
      (0x1FD0, 0x1FD3), (0x1FD6, 0x1FDB), (0x1FE0, 0x1FEC), (0x1FF2, 0x1FF4), (0x1FF6, 0x1FFC),
      (0x2102, 0x2102), (0x2107, 0x2107), (0x210A, 0x2113), (0x2115, 0x2115), (0x2119, 0x211D),
      (0x2124, 0x2124), (0x2126, 0x2126), (0x2128, 0x2128), (0x212A, 0x212D), (0x212F, 0x2134),
      (0x2139, 0x2139), (0x213C, 0x213F), (0x2145, 0x2149), (0x214E, 0x214E), (0x2160, 0x217F),
      (0x2183, 0x2184), (0x24B6, 0x24E9), (0x2C00, 0x2C7B), (0x2C7E, 0x2CE4), (0x2CEB, 0x2CEE),
      (0x2CF2, 0x2CF3), (0x2D00, 0x2D25), (0x2D27, 0x2D27), (0x2D2D, 0x2D2D), (0xA640, 0xA66D),
      (0xA680, 0xA69B), (0xA722, 0xA76F), (0xA771, 0xA787), (0xA78B, 0xA78E), (0xA790, 0xA7CA),
      (0xA7D0, 0xA7D1), (0xA7D3, 0xA7D3), (0xA7D5, 0xA7D9), (0xA7F5, 0xA7F6), (0xA7FA, 0xA7FA),
      (0xAB30, 0xAB5A), (0xAB60, 0xAB68), (0xAB70, 0xABBF), (0xFB00, 0xFB06), (0xFB13, 0xFB17),
      (0xFF21, 0xFF3A), (0xFF41, 0xFF5A), (0x10400, 0x1044F), (0x104B0, 0x104D3),
      (0x104D8, 0x104FB), (0x10570, 0x1057A), (0x1057C, 0x1058A), (0x1058C, 0x10592),
      (0x10594, 0x10595), (0x10597, 0x105A1), (0x105A3, 0x105B1), (0x105B3, 0x105B9),
      (0x105BB, 0x105BC), (0x10C80, 0x10CB2), (0x10CC0, 0x10CF2), (0x118A0, 0x118DF),
      (0x16E40, 0x16E7F), (0x1D400, 0x1D454), (0x1D456, 0x1D49C), (0x1D49E, 0x1D49F),
      (0x1D4A2, 0x1D4A2), (0x1D4A5, 0x1D4A6), (0x1D4A9, 0x1D4AC), (0x1D4AE, 0x1D4B9),
      (0x1D4BB, 0x1D4BB), (0x1D4BD, 0x1D4C3), (0x1D4C5, 0x1D505), (0x1D507, 0x1D50A),
      (0x1D50D, 0x1D514), (0x1D516, 0x1D51C), (0x1D51E, 0x1D539), (0x1D53B, 0x1D53E),
      (0x1D540, 0x1D544), (0x1D546, 0x1D546), (0x1D54A, 0x1D550), (0x1D552, 0x1D6A5),
      (0x1D6A8, 0x1D6C0), (0x1D6C2, 0x1D6DA), (0x1D6DC, 0x1D6FA), (0x1D6FC, 0x1D714),
      (0x1D716, 0x1D734), (0x1D736, 0x1D74E), (0x1D750, 0x1D76E), (0x1D770, 0x1D788),
      (0x1D78A, 0x1D7A8), (0x1D7AA, 0x1D7C2), (0x1D7C4, 0x1D7CB), (0x1DF00, 0x1DF09),
      (0x1DF0B, 0x1DF1E), (0x1E900, 0x1E943), (0x1F130, 0x1F149), (0x1F150, 0x1F169),
      (0x1F170, 0x1F189)]"

definition isspace :: "int \<Rightarrow> bool" where
  \<comment> \<open>\<^verbatim>\<open>str.isspace\<close> of one code point; \<^verbatim>\<open>strip\<close> and \<^verbatim>\<open>split\<close> use the same class\<close>
  "isspace c = in_ranges space_ranges c"

definition isdigit_cp :: "int \<Rightarrow> bool" where
  "isdigit_cp c = (if c < 128 then 48 \<le> c \<and> c \<le> 57 else in_ranges digit_ranges c)"

definition isword :: "int \<Rightarrow> bool" where
  \<comment> \<open>the class \<^verbatim>\<open>\w\<close> of \<^verbatim>\<open>re\<close>: alphanumeric code points and the underscore\<close>
  "isword c =
     (if c < 128 then (48 \<le> c \<and> c \<le> 57) \<or> (65 \<le> c \<and> c \<le> 90) \<or> c = 95 \<or> (97 \<le> c \<and> c \<le> 122)
      else in_ranges word_ranges c)"

definition upper_cp :: "int \<Rightarrow> ustring" where
  \<comment> \<open>\<^verbatim>\<open>str.upper\<close> of one code point, which may give several\<close>
  "upper_cp c =
     (if c < 128 then (if 97 \<le> c \<and> c \<le> 122 then [c - 32] else [c])
      else case map_of upper_special c of
             Some cs \<Rightarrow> cs
           | None \<Rightarrow> (case in_runs upper_runs c of Some u \<Rightarrow> [u] | None \<Rightarrow> [c]))"

definition upper :: "ustring \<Rightarrow> ustring" where
  "upper s = concat (map upper_cp s)"

definition lower_cp :: "int \<Rightarrow> ustring" where
  \<comment> \<open>\<^verbatim>\<open>str.lower\<close> of one code point other than the capital sigma\<close>
  "lower_cp c =
     (if c < 128 then (if 65 \<le> c \<and> c \<le> 90 then [c + 32] else [c])
      else case map_of lower_special c of
             Some cs \<Rightarrow> cs
           | None \<Rightarrow> (case in_runs lower_runs c of Some l \<Rightarrow> [l] | None \<Rightarrow> [c]))"

definition case_ignorable :: "int \<Rightarrow> bool" where
  "case_ignorable c = in_ranges case_ignorable_ranges c"

definition cased :: "int \<Rightarrow> bool" where
  "cased c = in_ranges cased_ranges c"

definition final_sigma :: "ustring \<Rightarrow> ustring \<Rightarrow> bool" where
  \<comment> \<open>the capital sigma is final when, case-ignorable code points aside, a cased code point
      comes before it and none comes after it; \<open>prev\<close> is the text before it, reversed\<close>
  "final_sigma prev rest =
     ((case dropWhile case_ignorable prev of [] \<Rightarrow> False | c # _ \<Rightarrow> cased c) \<and>
      (case dropWhile case_ignorable rest of [] \<Rightarrow> True | c # _ \<Rightarrow> \<not> cased c))"

fun lower_from :: "ustring \<Rightarrow> ustring \<Rightarrow> ustring" where
  "lower_from prev [] = []"
| "lower_from prev (c # cs) =
     (if c = 0x3A3 then [if final_sigma prev cs then 0x3C2 else 0x3C3] else lower_cp c)
     @ lower_from (c # prev) cs"

definition lower :: "ustring \<Rightarrow> ustring" where
  \<comment> \<open>\<^verbatim>\<open>str.lower\<close>\<close>
  "lower s = lower_from [] s"

definition isdigit :: "ustring \<Rightarrow> bool" where
  \<comment> \<open>\<^verbatim>\<open>str.isdigit\<close>: at least one code point, and all of them digits\<close>
  "isdigit s = (s \<noteq> [] \<and> list_all isdigit_cp s)"

definition lstrip :: "ustring \<Rightarrow> ustring" where
  "lstrip s = dropWhile isspace s"

definition rstrip :: "ustring \<Rightarrow> ustring" where
  "rstrip s = rev (dropWhile isspace (rev s))"

definition strip :: "ustring \<Rightarrow> ustring" where
  "strip s = rstrip (lstrip s)"

fun split_ws :: "nat \<Rightarrow> ustring \<Rightarrow> ustring list" where
  \<comment> \<open>\<^verbatim>\<open>s.split(None, maxsplit)\<close>: runs of whitespace separate the tokens, and once
      \<^verbatim>\<open>maxsplit\<close> splits are made the rest, without its leading whitespace, is the last token\<close>
  "split_ws 0 s = (let r = dropWhile isspace s in if r = [] then [] else [r])"
| "split_ws (Suc k) s =
     (let r = dropWhile isspace s in
      if r = [] then []
      else takeWhile (\<lambda>c. \<not> isspace c) r # split_ws k (dropWhile (\<lambda>c. \<not> isspace c) r))"

definition strip_nonword :: "ustring \<Rightarrow> ustring" where
  \<comment> \<open>\<^verbatim>\<open>re.sub(r"[^\w]", "", s)\<close>\<close>
  "strip_nonword s = filter isword s"

section \<open>Errors and Scrapy's requests\<close>

datatype error = IndexError | ValueError

record request =
  url :: string
  request_headers :: "(string \<times> string) list"

text \<open>
  Scrapy is a parameter of the model: \<open>safe_url\<close> is what \<^verbatim>\<open>scrapy.Request\<close> does to the URL
  it is given (\<^verbatim>\<open>safe_url_string\<close>, which escapes the URL into ASCII and raises
  \<^verbatim>\<open>ValueError\<close> on a URL it cannot split, then \<^verbatim>\<open>escape_ajax\<close>), and \<open>download\<close> is the
  outcome of a download: the checksum and the status of the file, or nothing when the
  download fails.
\<close>

record scrapy =
  safe_url :: "ustring \<Rightarrow> error + string"
  download :: "request \<Rightarrow> (string \<times> string) option"


section \<open>The spider's helper functions\<close>

definition split_class :: "ustring \<Rightarrow> ustring \<times> ustring" where
  \<comment> \<open>\<^verbatim>\<open>_split_class\<close>\<close>
  "split_class class_name =
     (let parts = split_ws 1 (strip class_name) in
      if length parts = 2 then (upper (parts ! 0), parts ! 1)
      else if length parts = 1 then (upper (parts ! 0), [])
      else ([], []))"

subsection \<open>The parsed page\<close>

text \<open>
  The spider reads a page through CSS selectors only. A response is modelled by what each
  selector the code uses returns on it, in document order, and by its own \<^verbatim>\<open>urljoin\<close>,
  which raises \<^verbatim>\<open>ValueError\<close> on a reference it cannot split.
\<close>

record option_el =
  attrib_value :: "ustring option"  \<comment> \<open>the \<^verbatim>\<open>value\<close> attribute of the option element, when it has one\<close>
  option_texts :: "ustring list"    \<comment> \<open>\<^verbatim>\<open>opt.css("::text")\<close>\<close>

record cell =
  cell_texts :: "ustring list"  \<comment> \<open>\<^verbatim>\<open>td.css("::text")\<close>\<close>
  cell_hrefs :: "ustring list"  \<comment> \<open>\<^verbatim>\<open>td.css("a::attr(href)")\<close>\<close>

record response =
  css_options :: "string \<Rightarrow> option_el list"  \<comment> \<open>\<^verbatim>\<open>response.css(sel)\<close> for a selector of option elements\<close>
  table_th :: "ustring list list"             \<comment> \<open>the text nodes of each element of \<^verbatim>\<open>response.css("table th")\<close>\<close>
  table_tr :: "cell list list"                \<comment> \<open>\<^verbatim>\<open>row.css("td")\<close> for each row of \<^verbatim>\<open>response.css("table tr")\<close>\<close>
  css_href :: "string \<Rightarrow> ustring option"     \<comment> \<open>\<^verbatim>\<open>response.css(sel).get()\<close> for a selector of href attributes\<close>
  urljoin :: "ustring \<Rightarrow> error + ustring"

definition get_first :: "ustring list \<Rightarrow> ustring" where
  \<comment> \<open>\<^verbatim>\<open>.get("")\<close> on a selector list: the first match, or the default\<close>
  "get_first xs = (case xs of [] \<Rightarrow> [] | x # _ \<Rightarrow> x)"

subsection \<open>Term discovery\<close>

definition selectors_to_try :: "string list" where
  \<open>selectors_to_try =
     [''select[name="term"] option'', ''select#term option'', ''form select option'']\<close>

definition option_value :: "option_el \<Rightarrow> ustring" where
  \<comment> \<open>\<^verbatim>\<open>opt.attrib.get("value", "").strip()\<close>\<close>
  "option_value opt = strip (case attrib_value opt of None \<Rightarrow> [] | Some v \<Rightarrow> v)"

definition option_label :: "option_el \<Rightarrow> ustring" where
  \<comment> \<open>\<^verbatim>\<open>opt.css("::text").get("").strip()\<close>\<close>
  "option_label opt = strip (get_first (option_texts opt))"

fun collect_options :: "option_el list \<Rightarrow> (ustring \<times> ustring) list" where
  \<comment> \<open>the inner loop of \<^verbatim>\<open>_extract_term_options\<close>, which fills \<^verbatim>\<open>results\<close>\<close>
  "collect_options [] = []"
| "collect_options (opt # opts) =
     (if isdigit (option_value opt)
      then (option_value opt, option_label opt) # collect_options opts
      else collect_options opts)"

fun try_selectors :: "response \<Rightarrow> string list \<Rightarrow> (ustring \<times> ustring) list" where
  \<comment> \<open>the outer loop of \<^verbatim>\<open>_extract_term_options\<close>\<close>
  "try_selectors response [] = []"
| "try_selectors response (sel # sels) =
     (let options = css_options response sel in
      if options \<noteq> [] then
        (let results = collect_options options in
         if results \<noteq> [] then results else try_selectors response sels)
      else try_selectors response sels)"

definition extract_term_options :: "response \<Rightarrow> (ustring \<times> ustring) list" where
  \<comment> \<open>\<^verbatim>\<open>_extract_term_options\<close>\<close>
  "extract_term_options response = try_selectors response selectors_to_try"

definition term_options_first_selector :: "response \<Rightarrow> (ustring \<times> ustring) list" where
  \<comment> \<open>Term Discovery as the specification words it: the first selector that yields any
      option element decides, and its digit-valued options are the result\<close>
  "term_options_first_selector response =
     (case find (\<lambda>sel. css_options response sel \<noteq> []) selectors_to_try of
        None \<Rightarrow> []
      | Some sel \<Rightarrow> collect_options (css_options response sel))"

subsection \<open>Column resolver and row parser\<close>

fun find_header :: "ustring \<Rightarrow> nat \<Rightarrow> ustring list \<Rightarrow> nat option" where
  \<comment> \<open>the inner loop of \<^verbatim>\<open>col_index\<close> over \<^verbatim>\<open>enumerate(headers)\<close>, counting from \<open>i\<close>;
      \<^verbatim>\<open>name in h\<close> is the substring test\<close>
  "find_header name i [] = None"
| "find_header name i (h # hs) = (if sublist name h then Some i else find_header name (Suc i) hs)"

fun col_index :: "ustring list \<Rightarrow> ustring list \<Rightarrow> nat \<Rightarrow> nat" where
  \<comment> \<open>\<^verbatim>\<open>col_index(names, default)\<close>, with the \<^verbatim>\<open>headers\<close> it closes over as first argument\<close>
  "col_index headers [] dflt = dflt"
| "col_index headers (name # names) dflt =
     (case find_header name 0 headers of
        Some i \<Rightarrow> i
      | None \<Rightarrow> col_index headers names dflt)"

definition table_headers :: "response \<Rightarrow> ustring list" where
  "table_headers response = map (\<lambda>th. lower (strip (get_first th))) (table_th response)"

definition class_col :: "ustring list \<Rightarrow> nat" where
  "class_col headers = col_index headers [str ''class''] 1"

definition section_col :: "ustring list \<Rightarrow> nat" where
  "section_col headers = col_index headers [str ''section''] 2"

definition instructor_col :: "ustring list \<Rightarrow> nat" where
  "instructor_col headers = col_index headers [str ''instructor''] 3"

definition syllabi_col :: "ustring list \<Rightarrow> nat" where
  "syllabi_col headers = col_index headers [str ''syllabi'', str ''syllabus''] 4"

definition max_col :: "ustring list \<Rightarrow> nat" where
  "max_col headers =
     max (max (max (class_col headers) (section_col headers)) (instructor_col headers))
         (syllabi_col headers)"

definition index :: "'a list \<Rightarrow> nat \<Rightarrow> error + 'a" where
  \<comment> \<open>\<^verbatim>\<open>cells[i]\<close> for \<open>i \<ge> 0\<close>: raises out of range\<close>
  "index xs i = (if i < length xs then Inr (xs ! i) else Inl IndexError)"

record table_row =
  row_class_name :: ustring
  row_section :: ustring
  row_instructor :: ustring
  row_href :: ustring

definition cell_text :: "cell \<Rightarrow> ustring" where
  \<comment> \<open>\<^verbatim>\<open>cell.css("::text").get("").strip()\<close>\<close>
  "cell_text c = strip (get_first (cell_texts c))"

definition cell_href :: "cell \<Rightarrow> ustring" where
  \<comment> \<open>\<^verbatim>\<open>cell.css("a::attr(href)").get("").strip()\<close>\<close>
  "cell_href c = strip (get_first (cell_hrefs c))"

definition parse_row :: "ustring list \<Rightarrow> cell list \<Rightarrow> error + table_row option" where
  \<comment> \<open>the body of the loop of \<^verbatim>\<open>_parse_results_table\<close>: \<open>None\<close> is \<^verbatim>\<open>continue\<close>\<close>
  "parse_row headers cells =
     (if length cells \<le> max_col headers then Inr None
      else case index cells (class_col headers) of Inl e \<Rightarrow> Inl e | Inr c \<Rightarrow>
           case index cells (section_col headers) of Inl e \<Rightarrow> Inl e | Inr s \<Rightarrow>
           case index cells (instructor_col headers) of Inl e \<Rightarrow> Inl e | Inr i \<Rightarrow>
           case index cells (syllabi_col headers) of Inl e \<Rightarrow> Inl e | Inr l \<Rightarrow>
             if cell_text c = [] then Inr None
             else Inr (Some \<lparr>row_class_name = cell_text c, row_section = cell_text s,
                              row_instructor = cell_text i, row_href = cell_href l\<rparr>))"

fun parse_rows :: "ustring list \<Rightarrow> cell list list \<Rightarrow> error + table_row list" where
  \<comment> \<open>the loop of \<^verbatim>\<open>_parse_results_table\<close> over \<^verbatim>\<open>response.css("table tr")\<close>\<close>
  "parse_rows headers [] = Inr []"
| "parse_rows headers (cells # rest) =
     (case parse_row headers cells of
        Inl e \<Rightarrow> Inl e
      | Inr r \<Rightarrow>
          (case parse_rows headers rest of
             Inl e \<Rightarrow> Inl e
           | Inr rs \<Rightarrow> Inr (case r of None \<Rightarrow> rs | Some row \<Rightarrow> row # rs)))"

definition parse_results_table :: "response \<Rightarrow> error + table_row list" where
  \<comment> \<open>\<^verbatim>\<open>list(_parse_results_table(response, term_code, term_name))\<close>; the two term
      arguments are unused by the source\<close>
  "parse_results_table response = parse_rows (table_headers response) (table_tr response)"

subsection \<open>Items and the per-term callback\<close>

record file_info =
  fi_url :: string
  fi_path :: ustring
  fi_checksum :: string
  fi_status :: string

text \<open>
  \<^verbatim>\<open>UConnSyllabusItem\<close>: a field that was never set is \<open>None\<close>
  (\<^verbatim>\<open>adapter.get(name)\<close> then gives \<^verbatim>\<open>None\<close>).
\<close>

record item =
  term_name :: "ustring option"
  term_code :: "ustring option"
  class_name :: "ustring option"
  section_field :: "ustring option"  \<comment> \<open>the field \<^verbatim>\<open>section\<close>\<close>
  instructor :: "ustring option"
  syllabus_web_url :: "ustring option"
  syllabus_local_filepath :: "ustring option"
  syllabus_local_filename :: "ustring option"
  file_urls :: "ustring list option"
  files :: "file_info list option"














section \<open>Library functions the pipeline calls\<close>

subsection \<open>\<^verbatim>\<open>urllib.parse\<close>\<close>

text \<open>
  \<^verbatim>\<open>urlparse\<close> and \<^verbatim>\<open>parse_qs\<close> as CPython 3.11 defines them, on \<^verbatim>\<open>str\<close> arguments with
  the default parameters. Left out: the checks of a bracketed host, which raise
  \<^verbatim>\<open>ValueError\<close> (the URL of a request has been split by the same function when the request
  was built).
\<close>

definition part_before :: "'a \<Rightarrow> 'a list \<Rightarrow> 'a list" where
  \<comment> \<open>\<^verbatim>\<open>s.split(c, 1)[0]\<close>, which is also \<^verbatim>\<open>s.split(c)[0]\<close> and \<^verbatim>\<open>s.partition(c)[0]\<close>\<close>
  "part_before c s = takeWhile (\<lambda>x. x \<noteq> c) s"

definition part_after :: "'a \<Rightarrow> 'a list \<Rightarrow> 'a list" where
  \<comment> \<open>\<^verbatim>\<open>s.partition(c)[2]\<close>; it is \<^verbatim>\<open>s.split(c, 1)[1]\<close> when \<open>c\<close> occurs in \<open>s\<close>\<close>
  "part_after c s = drop 1 (dropWhile (\<lambda>x. x \<noteq> c) s)"

fun split_char :: "char \<Rightarrow> string \<Rightarrow> string list" where
  \<comment> \<open>\<^verbatim>\<open>s.split(c)\<close>\<close>
  "split_char c [] = [[]]"
| "split_char c (x # xs) =
     (if x = c then [] # split_char c xs
      else (case split_char c xs of [] \<Rightarrow> [[x]] | p # ps \<Rightarrow> (x # p) # ps))"

record parse_result =
  scheme :: string
  netloc :: string
  path :: string
  params :: string
  query :: string
  fragment :: string

definition c0_control_or_space :: "char \<Rightarrow> bool" where
  "c0_control_or_space c = (ord c \<le> 32)"

definition unsafe_url_byte :: "char \<Rightarrow> bool" where
  "unsafe_url_byte c = (c = CHR 0x09 \<or> c = CHR 0x0D \<or> c = CHR 0x0A)"

definition ascii_alpha :: "char \<Rightarrow> bool" where
  "ascii_alpha c = ((65 \<le> ord c \<and> ord c \<le> 90) \<or> (97 \<le> ord c \<and> ord c \<le> 122))"

definition scheme_char :: "char \<Rightarrow> bool" where
  "scheme_char c =
     (ascii_alpha c \<or> (48 \<le> ord c \<and> ord c \<le> 57) \<or> c = CHR ''+'' \<or> c = CHR ''-'' \<or> c = CHR ''.'')"

definition scheme_lower :: "string \<Rightarrow> string" where
  \<comment> \<open>\<^verbatim>\<open>str.lower\<close> on a scheme, whose characters are ASCII\<close>
  "scheme_lower s = map (\<lambda>c. if 65 \<le> ord c \<and> ord c \<le> 90 then char_of (ord c + 32) else c) s"

definition uses_params :: "string list" where
  "uses_params = ['''', ''ftp'', ''hdl'', ''prospero'', ''http'', ''imap'',
                  ''https'', ''shttp'', ''rtsp'', ''rtsps'', ''rtspu'', ''sip'',
                  ''sips'', ''mms'', ''sftp'', ''tel'']"

definition netloc_delim :: "char \<Rightarrow> bool" where
  "netloc_delim c = (c = CHR ''/'' \<or> c = CHR ''?'' \<or> c = CHR ''#'')"

definition split_scheme :: "string \<Rightarrow> string \<times> string" where
  \<comment> \<open>the scheme and the rest, as \<^verbatim>\<open>urlsplit\<close> finds them\<close>
  "split_scheme u =
     (let s = part_before CHR '':'' u in
      if CHR '':'' \<in> set u \<and> s \<noteq> [] \<and> ascii_alpha (hd u) \<and> list_all scheme_char s
      then (scheme_lower s, part_after CHR '':'' u)
      else ([], u))"

definition split_netloc :: "string \<Rightarrow> string \<times> string" where
  \<comment> \<open>\<^verbatim>\<open>_splitnetloc(u, 2)\<close> when the rest starts with two slashes\<close>
  "split_netloc u =
     (if take 2 u = ''//''
      then (takeWhile (\<lambda>c. \<not> netloc_delim c) (drop 2 u),
            dropWhile (\<lambda>c. \<not> netloc_delim c) (drop 2 u))
      else ([], u))"

definition urlsplit :: "string \<Rightarrow> parse_result" where
  "urlsplit url0 =
     (let url1 = filter (\<lambda>c. \<not> unsafe_url_byte c) (dropWhile c0_control_or_space url0);
          (sch, url2) = split_scheme url1;
          (net, url3) = split_netloc url2;
          (url4, frag) = (if CHR ''#'' \<in> set url3
                          then (part_before CHR ''#'' url3, part_after CHR ''#'' url3) else (url3, []));
          (url5, qry) = (if CHR ''?'' \<in> set url4
                         then (part_before CHR ''?'' url4, part_after CHR ''?'' url4) else (url4, []))
      in \<lparr>scheme = sch, netloc = net, path = url5, params = [], query = qry, fragment = frag\<rparr>)"

definition splitparams :: "string \<Rightarrow> string \<times> string" where
  \<comment> \<open>\<^verbatim>\<open>_splitparams\<close>: the first semicolon of the last path segment\<close>
  "splitparams u =
     (if CHR ''/'' \<in> set u then
        (let seg = rev (takeWhile (\<lambda>c. c \<noteq> CHR ''/'') (rev u));
             dir = take (length u - length seg) u
         in if CHR '';'' \<in> set seg then (dir @ part_before CHR '';'' seg, part_after CHR '';'' seg)
            else (u, []))
      else (part_before CHR '';'' u, part_after CHR '';'' u))"

definition urlparse :: "string \<Rightarrow> parse_result" where
  "urlparse u =
     (let r = urlsplit u in
      if scheme r \<in> set uses_params \<and> CHR '';'' \<in> set (path r)
      then (let (p, ps) = splitparams (path r) in r\<lparr>path := p, params := ps\<rparr>)
      else r)"

definition hexval :: "char \<Rightarrow> int option" where
  "hexval c =
     (let n = ord c in
      if 48 \<le> n \<and> n \<le> 57 then Some (n - 48)
      else if 65 \<le> n \<and> n \<le> 70 then Some (n - 55)
      else if 97 \<le> n \<and> n \<le> 102 then Some (n - 87)
      else None)"

fun unquote_to_bytes :: "string \<Rightarrow> int list" where
  \<comment> \<open>\<^verbatim>\<open>unquote_to_bytes\<close> on an ASCII string: a percent sign followed by two hexadecimal
      digits is that byte\<close>
  "unquote_to_bytes (c # a # b # rest) =
     (if c = CHR ''%'' then
        (case (hexval a, hexval b) of
           (Some x, Some y) \<Rightarrow> (16 * x + y) # unquote_to_bytes rest
         | _ \<Rightarrow> ord c # unquote_to_bytes (a # b # rest))
      else ord c # unquote_to_bytes (a # b # rest))"
| "unquote_to_bytes (c # rest) = ord c # unquote_to_bytes rest"
| "unquote_to_bytes [] = []"

definition continuation :: "int \<Rightarrow> bool" where
  "continuation b = (0x80 \<le> b \<and> b \<le> 0xBF)"

definition second_byte :: "int \<Rightarrow> int \<Rightarrow> bool" where
  \<comment> \<open>the second bytes that may follow the first byte of a sequence of three or four\<close>
  "second_byte b0 b1 =
     (if b0 = 0xE0 then 0xA0 \<le> b1 \<and> b1 \<le> 0xBF
      else if b0 = 0xED then 0x80 \<le> b1 \<and> b1 \<le> 0x9F
      else if b0 = 0xF0 then 0x90 \<le> b1 \<and> b1 \<le> 0xBF
      else if b0 = 0xF4 then 0x80 \<le> b1 \<and> b1 \<le> 0x8F
      else continuation b1)"

fun utf8_decode :: "int list \<Rightarrow> ustring" where
  \<comment> \<open>\<^verbatim>\<open>bytes.decode('utf-8', 'replace')\<close>: a byte, or the longest start of a sequence, that
      is not well-formed gives U+FFFD\<close>
  "utf8_decode [] = []"
| "utf8_decode (b0 # bs) =
     (if b0 < 0x80 then b0 # utf8_decode bs
      else if 0xC2 \<le> b0 \<and> b0 \<le> 0xDF then
        (case bs of
           b1 # bs1 \<Rightarrow>
             if continuation b1 then (b0 mod 32 * 64 + b1 mod 64) # utf8_decode bs1
             else 0xFFFD # utf8_decode bs
         | [] \<Rightarrow> [0xFFFD])
      else if 0xE0 \<le> b0 \<and> b0 \<le> 0xEF then
        (case bs of
           b1 # bs1 \<Rightarrow>
             if second_byte b0 b1 then
               (case bs1 of
                  b2 # bs2 \<Rightarrow>
                    if continuation b2
                    then (b0 mod 16 * 4096 + b1 mod 64 * 64 + b2 mod 64) # utf8_decode bs2
                    else 0xFFFD # utf8_decode bs1
                | [] \<Rightarrow> [0xFFFD])
             else 0xFFFD # utf8_decode bs
         | [] \<Rightarrow> [0xFFFD])
      else if 0xF0 \<le> b0 \<and> b0 \<le> 0xF4 then
        (case bs of
           b1 # bs1 \<Rightarrow>
             if second_byte b0 b1 then
               (case bs1 of
                  b2 # bs2 \<Rightarrow>
                    if continuation b2 then
                      (case bs2 of
                         b3 # bs3 \<Rightarrow>
                           if continuation b3
                           then (b0 mod 8 * 262144 + b1 mod 64 * 4096 + b2 mod 64 * 64 + b3 mod 64)
                                # utf8_decode bs3
                           else 0xFFFD # utf8_decode bs2
                       | [] \<Rightarrow> [0xFFFD])
                    else 0xFFFD # utf8_decode bs1
                | [] \<Rightarrow> [0xFFFD])
             else 0xFFFD # utf8_decode bs
         | [] \<Rightarrow> [0xFFFD])
      else 0xFFFD # utf8_decode bs)"

fun unquote_runs :: "string \<Rightarrow> string \<Rightarrow> ustring" where
  \<comment> \<open>the loop of \<^verbatim>\<open>unquote\<close> over the runs of ASCII characters: \<open>run\<close> is the run so far\<close>
  "unquote_runs run [] = utf8_decode (unquote_to_bytes run)"
| "unquote_runs run (c # cs) =
     (if ord c < 128 then unquote_runs (run @ [c]) cs
      else utf8_decode (unquote_to_bytes run) @ ord c # unquote_runs [] cs)"

definition unquote :: "string \<Rightarrow> ustring" where
  \<comment> \<open>\<^verbatim>\<open>unquote\<close>: the escapes of each run of ASCII characters are decoded as UTF-8, and
      what does not decode is replaced\<close>
  "unquote s = unquote_runs [] s"

definition plus_to_space :: "string \<Rightarrow> string" where
  \<comment> \<open>\<^verbatim>\<open>s.replace('+', ' ')\<close>\<close>
  "plus_to_space s = map (\<lambda>c. if c = CHR ''+'' then CHR '' '' else c) s"

fun parse_fields :: "string list \<Rightarrow> (ustring \<times> ustring) list" where
  \<comment> \<open>the loop of \<^verbatim>\<open>parse_qsl\<close> over \<^verbatim>\<open>qs.split('&')\<close>: a field without a value is dropped\<close>
  "parse_fields [] = []"
| "parse_fields (name_value # rest) =
     (if name_value = [] then parse_fields rest
      else if CHR ''='' \<notin> set name_value then parse_fields rest
      else if part_after CHR ''='' name_value = [] then parse_fields rest
      else (unquote (plus_to_space (part_before CHR ''='' name_value)),
            unquote (plus_to_space (part_after CHR ''='' name_value))) # parse_fields rest)"

definition parse_qsl :: "string \<Rightarrow> (ustring \<times> ustring) list" where
  "parse_qsl qs = parse_fields (split_char CHR ''&'' qs)"

definition qs_get_first :: "string \<Rightarrow> ustring \<Rightarrow> ustring" where
  \<comment> \<open>\<^verbatim>\<open>parse_qs(qs).get(name, [""])[0]\<close>: the first value given for the name\<close>
  "qs_get_first qs name = (case map_of (parse_qsl qs) name of None \<Rightarrow> [] | Some v \<Rightarrow> v)"

subsection \<open>\<^verbatim>\<open>hashlib.sha1\<close>\<close>

type_synonym byte = "8 word"
type_synonym word32 = "32 word"

fun encode :: "string \<Rightarrow> byte list" where
  \<comment> \<open>\<^verbatim>\<open>url.encode()\<close>: UTF-8, one byte for a code point below 128 and two up to 255\<close>
  "encode [] = []"
| "encode (c # cs) =
     (if ord c < 128 then [of_int (ord c)]
      else [of_int (0xC0 + ord c div 64), of_int (0x80 + ord c mod 64)]) @ encode cs"

definition rotl :: "nat \<Rightarrow> word32 \<Rightarrow> word32" where
  "rotl n w = push_bit n w OR drop_bit (32 - n) w"

definition sha1_pad :: "byte list \<Rightarrow> byte list" where
  "sha1_pad msg =
     msg @ [0x80] @ replicate ((119 - length msg mod 64) mod 64) 0 @
     map (\<lambda>i. ucast (drop_bit (8 * i) (of_nat (8 * length msg) :: 64 word)))
       [7, 6, 5, 4, 3, 2, 1, 0]"

fun be_words :: "byte list \<Rightarrow> word32 list" where
  "be_words (a # b # c # d # rest) =
     (push_bit 24 (ucast a) OR push_bit 16 (ucast b) OR push_bit 8 (ucast c) OR ucast d)
     # be_words rest"
| "be_words _ = []"

fun expand :: "nat \<Rightarrow> word32 list \<Rightarrow> word32 list" where
  "expand 0 w = w"
| "expand (Suc n) w =
     (let t = length w in
      expand n (w @ [rotl 1 (w ! (t - 3) XOR w ! (t - 8) XOR w ! (t - 14) XOR w ! (t - 16))]))"

definition sha1_f :: "nat \<Rightarrow> word32 \<Rightarrow> word32 \<Rightarrow> word32 \<Rightarrow> word32" where
  "sha1_f t b c d =
     (if t < 20 then (b AND c) OR (NOT b AND d)
      else if t < 40 then b XOR c XOR d
      else if t < 60 then (b AND c) OR (b AND d) OR (c AND d)
      else b XOR c XOR d)"

definition sha1_k :: "nat \<Rightarrow> word32" where
  "sha1_k t =
     (if t < 20 then 0x5A827999 else if t < 40 then 0x6ED9EBA1
      else if t < 60 then 0x8F1BBCDC else 0xCA62C1D6)"

type_synonym sha1_state = "word32 \<times> word32 \<times> word32 \<times> word32 \<times> word32"

fun sha1_rounds :: "nat \<Rightarrow> word32 list \<Rightarrow> sha1_state \<Rightarrow> sha1_state" where
  "sha1_rounds t [] st = st"
| "sha1_rounds t (w # ws) (a, b, c, d, e) =
     sha1_rounds (Suc t) ws (rotl 5 a + sha1_f t b c d + e + sha1_k t + w, a, rotl 30 b, c, d)"

definition sha1_block :: "sha1_state \<Rightarrow> byte list \<Rightarrow> sha1_state" where
  "sha1_block h block =
     (case (h, sha1_rounds 0 (expand 64 (be_words block)) h) of
        ((h0, h1, h2, h3, h4), (a, b, c, d, e)) \<Rightarrow> (h0 + a, h1 + b, h2 + c, h3 + d, h4 + e))"

fun sha1_blocks :: "nat \<Rightarrow> sha1_state \<Rightarrow> byte list \<Rightarrow> sha1_state" where
  "sha1_blocks 0 h bs = h"
| "sha1_blocks (Suc n) h bs = sha1_blocks n (sha1_block h (take 64 bs)) (drop 64 bs)"

definition sha1 :: "byte list \<Rightarrow> word32 list" where
  "sha1 msg =
     (let m = sha1_pad msg in
      case sha1_blocks (length m div 64)
             (0x67452301, 0xEFCDAB89, 0x98BADCFE, 0x10325476, 0xC3D2E1F0) m of
        (h0, h1, h2, h3, h4) \<Rightarrow> [h0, h1, h2, h3, h4])"

definition hex_digit :: "nat \<Rightarrow> char" where
  "hex_digit n = ''0123456789abcdef'' ! n"

definition hex_word :: "word32 \<Rightarrow> string" where
  "hex_word w = map (\<lambda>i. hex_digit (unat (drop_bit (4 * i) w AND 15))) [7, 6, 5, 4, 3, 2, 1, 0]"

definition sha1_hexdigest :: "byte list \<Rightarrow> string" where
  \<comment> \<open>\<^verbatim>\<open>hashlib.sha1(data).hexdigest()\<close>\<close>
  "sha1_hexdigest msg = concat (map hex_word (sha1 msg))"

subsection \<open>\<^verbatim>\<open>os.path\<close> (POSIX)\<close>



section \<open>The files pipeline\<close>


record media_info =
  files_store :: "ustring option"  \<comment> \<open>\<^verbatim>\<open>info.spider.settings\<close> at \<^verbatim>\<open>FILES_STORE\<close>, when set\<close>

definition adapter_get :: "item option \<Rightarrow> (item \<Rightarrow> 'a option) \<Rightarrow> 'a option" where
  \<comment> \<open>\<^verbatim>\<open>(ItemAdapter(item) if item else {}).get(field)\<close>\<close>
  "adapter_get item field = (case item of None \<Rightarrow> None | Some i \<Rightarrow> field i)"

definition or_default :: "ustring option \<Rightarrow> ustring \<Rightarrow> ustring" where
  \<comment> \<open>\<^verbatim>\<open>x or d\<close>: \<^verbatim>\<open>None\<close> and the empty string are falsy\<close>
  "or_default x d = (case x of None \<Rightarrow> d | Some v \<Rightarrow> if v = [] then d else v)"

fun decode_pipe :: "ustring \<Rightarrow> ustring" where
  \<comment> \<open>\<^verbatim>\<open>file_param.replace("%7C", "|")\<close>\<close>
  "decode_pipe (a # b # c # rest) =
     (if a = ord CHR ''%'' \<and> b = ord CHR ''7'' \<and> c = ord CHR ''C''
      then ord CHR ''|'' # decode_pipe rest
      else a # decode_pipe (b # c # rest))"
| "decode_pipe (a # rest) = a # decode_pipe rest"
| "decode_pipe [] = []"

definition class_parts :: "item option \<Rightarrow> ustring list" where
  \<comment> \<open>\<^verbatim>\<open>parts\<close> of \<^verbatim>\<open>file_path\<close>\<close>
  "class_parts item = split_ws 1 (strip (or_default (adapter_get item class_name) []))"

definition file_dept :: "item option \<Rightarrow> ustring" where
  \<comment> \<open>\<^verbatim>\<open>dept\<close> of \<^verbatim>\<open>file_path\<close>\<close>
  "file_dept item =
     (let parts = class_parts item in
      if parts \<noteq> [] then strip_nonword (parts ! 0) else str ''UNKNOWN'')"

definition file_number :: "item option \<Rightarrow> ustring" where
  \<comment> \<open>\<^verbatim>\<open>number\<close> of \<^verbatim>\<open>file_path\<close>\<close>
  "file_number item =
     (let parts = class_parts item in
      if length parts > 1 then strip_nonword (parts ! 1) else str ''0'')"

definition file_param :: "string \<Rightarrow> ustring" where
  \<comment> \<open>\<^verbatim>\<open>file_param\<close> of \<^verbatim>\<open>file_path\<close>\<close>
  "file_param u = qs_get_first (query (urlparse u)) (str ''file'')"

definition file_id :: "string \<Rightarrow> ustring" where
  \<comment> \<open>\<^verbatim>\<open>file_id\<close> of \<^verbatim>\<open>file_path\<close>\<close>
  "file_id u =
     (let file_param_decoded = decode_pipe (file_param u) in
      if ord CHR ''|'' \<in> set file_param_decoded
      then strip (part_before (ord CHR ''|'') file_param_decoded)
      else str (take 12 (sha1_hexdigest (encode u))))"

definition file_ext :: "string \<Rightarrow> ustring" where
  \<comment> \<open>\<^verbatim>\<open>ext\<close> of \<^verbatim>\<open>file_path\<close>\<close>
  "file_ext u =
     (let p = lower (str (path (urlparse u))) in
      if suffix (str ''.docx'') p then str ''docx''
      else if suffix (str ''.doc'') p then str ''doc''
      else str ''pdf'')"

definition file_path :: "request \<Rightarrow> 'r \<Rightarrow> 'i \<Rightarrow> item option \<Rightarrow> ustring" where
  \<comment> \<open>\<^verbatim>\<open>UConnFilesPipeline.file_path\<close>\<close>
  "file_path request response info item =
     strip (or_default (adapter_get item term_code) (str ''0000'')) @ str ''_'' @
     file_dept item @ str ''_'' @ file_number item @ str ''_'' @
     file_id (url request) @ str ''.'' @ file_ext (url request)"






section \<open>The Column Resolver as the specification words it\<close>

fun first_header_with_any :: "ustring list \<Rightarrow> nat \<Rightarrow> ustring list \<Rightarrow> nat option" where
  \<comment> \<open>the index, counted from \<open>i\<close>, of the first header that contains any of the candidates\<close>
  "first_header_with_any names i [] = None"
| "first_header_with_any names i (h # hs) =
     (if list_ex (\<lambda>name. sublist name h) names then Some i
      else first_header_with_any names (Suc i) hs)"

definition col_index_first_header :: "ustring list \<Rightarrow> ustring list \<Rightarrow> nat \<Rightarrow> nat" where
  "col_index_first_header headers names dflt =
     (case first_header_with_any names 0 headers of None \<Rightarrow> dflt | Some i \<Rightarrow> i)"

section \<open>Example pages and items\<close>

definition text_option :: "string \<Rightarrow> string \<Rightarrow> option_el" where
  "text_option v t = \<lparr>attrib_value = Some (str v), option_texts = [str t]\<rparr>"

definition placeholder_page :: response where
  \<comment> \<open>a term page whose term dropdown holds a placeholder only, next to a second
      dropdown of the same form\<close>
  \<open>placeholder_page =
     \<lparr>css_options = (\<lambda>sel.
          if sel = ''select[name="term"] option''
          then [text_option [] ''Select a term'']
          else if sel = ''form select option''
          then [text_option [] ''Select a term'', text_option ''1258'' ''Fall 2025'']
          else []),
      table_th = [], table_tr = [], css_href = (\<lambda>sel. None), urljoin = (\<lambda>href. Inr href)\<rparr>\<close>

definition unicode_page :: response where
  \<comment> \<open>a term page whose option values are a no-break space, and Arabic-Indic digits
      between an em space and an ideographic space\<close>
  \<open>unicode_page =
     \<lparr>css_options = (\<lambda>sel.
          if sel = ''select[name="term"] option''
          then [\<lparr>attrib_value = Some [0xA0], option_texts = [str ''Select a term'']\<rparr>,
                \<lparr>attrib_value = Some [0x2003, 0x661, 0x662, 0x3000],
                   option_texts = [[0xA0] @ str ''Fall 2025'']\<rparr>]
          else []),
      table_th = [], table_tr = [], css_href = (\<lambda>sel. None), urljoin = (\<lambda>href. Inr href)\<rparr>\<close>

definition text_cell :: "string \<Rightarrow> cell" where
  "text_cell t = \<lparr>cell_texts = [str t], cell_hrefs = []\<rparr>"

definition link_row :: "cell list" where
  "link_row =
     [text_cell ''Fall 2025'', text_cell ''CSE 3666'', text_cell ''001'', text_cell ''Zhijie Shi'',
      \<lparr>cell_texts = [str ''Download''], cell_hrefs = [str ''download.php?file=10|abc'']\<rparr>]"

definition nbsp_row :: "cell list" where
  \<comment> \<open>a row whose class-name cell holds a no-break space\<close>
  "nbsp_row =
     [text_cell ''Fall 2025'', \<lparr>cell_texts = [[0xA0]], cell_hrefs = []\<rparr>, text_cell ''001'',
      text_cell ''Staff'', text_cell []]"

definition plain_row :: "cell list" where
  \<comment> \<open>a row without a link\<close>
  "plain_row =
     [text_cell ''Fall 2025'', text_cell ''math 1131Q'', text_cell ''002'', text_cell ''Staff'',
      \<lparr>cell_texts = [], cell_hrefs = []\<rparr>]"

definition results_page :: response where
  \<comment> \<open>a results page: the header row, a row with a download link, a separator row, a row
      with a blank class name and a row without a link\<close>
  "results_page =
     \<lparr>css_options = (\<lambda>sel. []),
      table_th = [[str ''Term''], [str ''Class''], [str ''Section''], [str ''Instructor''],
                  [str ''Syllabi'']],
      table_tr = [[], link_row, [], nbsp_row, plain_row],
      css_href = (\<lambda>sel. None),
      urljoin = (\<lambda>href. Inr (str ''https://syllabus.uconn.edu/public/'' @ href))\<rparr>"






definition cse_item :: item where
  "cse_item =
     \<lparr>term_name = Some (str ''Fall 2025''), term_code = Some (str ''1258''),
      class_name = Some (str ''CSE 3666''), section_field = Some (str ''001''),
      instructor = Some (str ''Zhijie Shi''),
      syllabus_web_url =
        Some (str ''https://syllabus.uconn.edu/public/download.php?file=10%7Cabc''),
      syllabus_local_filepath = Some [], syllabus_local_filename = Some [],
      file_urls = Some [str ''https://syllabus.uconn.edu/public/download.php?file=10%7Cabc''],
      files = Some []\<rparr>"

definition math_item :: item where
  "math_item =
     \<lparr>term_name = Some (str ''Fall 2025''), term_code = Some (str ''1258''),
      class_name = Some (str ''math 1131Q''), section_field = Some (str ''002''),
      instructor = Some (str ''Staff''), syllabus_web_url = Some [],
      syllabus_local_filepath = Some [], syllabus_local_filename = Some [],
      file_urls = Some [], files = Some []\<rparr>"



section \<open>Whitespace, trimming and splitting\<close>

lemma dropWhile_all: "\<forall>c\<in>set l. P c \<Longrightarrow> dropWhile P (l @ r) = dropWhile P r"
  by (induction l) auto

lemma dropWhile_hd: "m \<noteq> [] \<Longrightarrow> \<not> P (hd m) \<Longrightarrow> dropWhile P (m @ r) = m @ r"
  by (cases m) auto

lemma strip_sandwich:
  assumes "\<forall>c\<in>set l. isspace c" "\<forall>c\<in>set t. isspace c"
    and "m \<noteq> []" "\<not> isspace (hd m)" "\<not> isspace (last m)"
  shows "strip (l @ m @ t) = m"
proof -
  have 1: "lstrip (l @ m @ t) = m @ t"
    using assms by (simp add: lstrip_def dropWhile_all dropWhile_hd)
  have "rev m \<noteq> []" "\<not> isspace (hd (rev m))"
    using assms by (simp_all add: hd_rev)
  then have "dropWhile isspace (rev t @ rev m) = rev m"
    using assms(2) dropWhile_hd[of "rev m" isspace "[]"] by (simp add: dropWhile_all)
  then show ?thesis
    by (simp add: strip_def 1 rstrip_def)
qed

lemma strip_all_space: "\<forall>c\<in>set s. isspace c \<Longrightarrow> strip s = []"
proof -
  assume "\<forall>c\<in>set s. isspace c"
  then have d: "dropWhile isspace s = []" by (induction s) auto
  show ?thesis unfolding strip_def lstrip_def rstrip_def d by simp
qed

lemma takeWhile_token:
  "\<forall>c\<in>set x. \<not> isspace c \<Longrightarrow> w \<noteq> [] \<Longrightarrow> isspace (hd w) \<Longrightarrow>
     takeWhile (\<lambda>c. \<not> isspace c) (x @ w) = x \<and> dropWhile (\<lambda>c. \<not> isspace c) (x @ w) = w"
  by (cases w) auto

lemma split_ws_two:
  assumes "x \<noteq> []" "\<forall>c\<in>set x. \<not> isspace c" "w \<noteq> []" "\<forall>c\<in>set w. isspace c"
    and "y \<noteq> []" "\<not> isspace (hd y)"
  shows "split_ws (Suc 0) (x @ w @ y) = [x, y]"
proof -
  have a: "dropWhile isspace (x @ w @ y) = x @ w @ y"
    using assms(1,2) by (cases x) auto
  have b: "w @ y \<noteq> []" "isspace (hd (w @ y))"
    using assms(3,4) by (cases w; simp)+
  have c: "takeWhile (\<lambda>c. \<not> isspace c) (x @ w @ y) = x"
       "dropWhile (\<lambda>c. \<not> isspace c) (x @ w @ y) = w @ y"
    using takeWhile_token[OF assms(2) b] by simp_all
  have d: "dropWhile isspace (w @ y) = y"
    using assms(4,5,6) dropWhile_hd[of y isspace "[]"] by (simp add: dropWhile_all)
  show ?thesis
    using assms(1,5) by (simp add: a c d Let_def)
qed

lemma split_ws_one:
  assumes "x \<noteq> []" "\<forall>c\<in>set x. \<not> isspace c"
  shows "split_ws (Suc 0) x = [x]"
proof -
  have a: "dropWhile isspace x = x"
    using assms by (cases x) auto
  have c: "takeWhile (\<lambda>c. \<not> isspace c) x = x" "dropWhile (\<lambda>c. \<not> isspace c) x = []"
    using assms(2) by simp_all
  show ?thesis
    using assms(1) by (simp add: a c Let_def)
qed

lemma rstrip_decomp: "\<exists>t. s = rstrip s @ t \<and> (\<forall>c\<in>set t. isspace c)"
proof -
  have "rev s = takeWhile isspace (rev s) @ dropWhile isspace (rev s)" by simp
  then have "s = rev (dropWhile isspace (rev s)) @ rev (takeWhile isspace (rev s))"
    by (metis rev_append rev_rev_ident)
  moreover have "\<forall>c\<in>set (rev (takeWhile isspace (rev s))). isspace c"
    by (auto dest: set_takeWhileD)
  ultimately show ?thesis unfolding rstrip_def by blast
qed

lemma rstrip_last: "rstrip s \<noteq> [] \<Longrightarrow> \<not> isspace (last (rstrip s))"
proof -
  assume "rstrip s \<noteq> []"
  then have "dropWhile isspace (rev s) \<noteq> []" by (simp add: rstrip_def)
  then have "\<not> isspace (hd (dropWhile isspace (rev s)))" by (rule hd_dropWhile)
  then show ?thesis using \<open>dropWhile isspace (rev s) \<noteq> []\<close>
    by (simp add: rstrip_def last_rev)
qed

lemma strip_decomp:
  "\<exists>l t. s = l @ strip s @ t \<and> (\<forall>c\<in>set l. isspace c) \<and> (\<forall>c\<in>set t. isspace c)"
proof -
  obtain t where t: "lstrip s = rstrip (lstrip s) @ t" "\<forall>c\<in>set t. isspace c"
    using rstrip_decomp [of "lstrip s"] by blast
  have "s = takeWhile isspace s @ lstrip s" by (simp add: lstrip_def)
  then have "s = takeWhile isspace s @ strip s @ t" using t(1) by (simp add: strip_def)
  moreover have "\<forall>c\<in>set (takeWhile isspace s). isspace c" by (auto dest: set_takeWhileD)
  ultimately show ?thesis using t(2) by blast
qed

lemma class_name_forms:
  "(\<forall>c\<in>set s. isspace c)
   \<or> (\<exists>l x t. s = l @ x @ t \<and> (\<forall>c\<in>set l. isspace c) \<and> (\<forall>c\<in>set t. isspace c)
         \<and> x \<noteq> [] \<and> (\<forall>c\<in>set x. \<not> isspace c))
   \<or> (\<exists>l x w y t. s = l @ x @ w @ y @ t \<and> (\<forall>c\<in>set l. isspace c) \<and> (\<forall>c\<in>set t. isspace c)
         \<and> x \<noteq> [] \<and> (\<forall>c\<in>set x. \<not> isspace c) \<and> w \<noteq> [] \<and> (\<forall>c\<in>set w. isspace c)
         \<and> y \<noteq> [] \<and> \<not> isspace (hd y) \<and> \<not> isspace (last y))"
proof -
  obtain l t where d: "s = l @ strip s @ t" "\<forall>c\<in>set l. isspace c" "\<forall>c\<in>set t. isspace c"
    using strip_decomp by blast
  define m where "m = strip s"
  show ?thesis
  proof (cases "m = []")
    case True
    then have "s = l @ t" using d(1) by (simp add: m_def)
    then have "\<forall>c\<in>set s. isspace c" using d(2,3) by auto
    then show ?thesis by blast
  next
    case False
    have hm: "\<not> isspace (hd m)"
    proof -
      have "lstrip s \<noteq> []" using False by (auto simp: m_def strip_def rstrip_def)
      then have "\<not> isspace (hd (lstrip s))" unfolding lstrip_def by (rule hd_dropWhile)
      moreover have "hd m = hd (lstrip s)"
      proof -
        obtain t' where "lstrip s = m @ t'"
          using rstrip_decomp [of "lstrip s"] by (auto simp: m_def strip_def)
        then show ?thesis using False by (simp add: hd_append)
      qed
      ultimately show ?thesis by simp
    qed
    have lm: "\<not> isspace (last m)"
      using False rstrip_last [of "lstrip s"] by (simp add: m_def strip_def)
    define x where "x = takeWhile (\<lambda>c. \<not> isspace c) m"
    define r where "r = dropWhile (\<lambda>c. \<not> isspace c) m"
    have mx: "m = x @ r" by (simp add: x_def r_def)
    have x1: "x \<noteq> []" using False hm unfolding x_def by (cases m) auto
    have x2: "\<forall>c\<in>set x. \<not> isspace c" unfolding x_def by (auto dest: set_takeWhileD)
    show ?thesis
    proof (cases "r = []")
      case True
      then have "s = l @ x @ t" using d(1) mx by (simp add: m_def)
      then show ?thesis using d(2,3) x1 x2 by blast
    next
      case rne: False
      define w where "w = takeWhile isspace r"
      define y where "y = dropWhile isspace r"
      have rw: "r = w @ y" by (simp add: w_def y_def)
      have "isspace (hd r)" using rne hd_dropWhile [of "\<lambda>c. \<not> isspace c" m] by (simp add: r_def)
      then have w1: "w \<noteq> []" using rne unfolding w_def by (cases r) auto
      have w2: "\<forall>c\<in>set w. isspace c" unfolding w_def by (auto dest: set_takeWhileD)
      have "last r = last m" using rne mx by simp
      then have lr: "\<not> isspace (last r)" using lm by simp
      have y1: "y \<noteq> []"
      proof
        assume "y = []"
        then have "r = w" using rw by simp
        then have "isspace (last r)" using w2 w1 by simp
        then show False using lr by simp
      qed
      have y2: "\<not> isspace (hd y)" using y1 unfolding y_def by (rule hd_dropWhile)
      have y3: "\<not> isspace (last y)" using lr y1 rw by simp
      have "s = l @ x @ w @ y @ t" using d(1) mx rw by (simp add: m_def)
      then show ?thesis using d(2,3) x1 x2 w1 w2 y1 y2 y3 by blast
    qed
  qed
qed

section \<open>The Class-Name Splitter\<close>

text \<open>
  Claim C7. Leading and trailing whitespace aside, a class name of the form \<open>X Y\<close>, where
  \<open>X\<close> is a token without whitespace, followed by a run of whitespace and by a rest \<open>Y\<close>
  that neither starts nor ends with whitespace, is split into \<open>(upper X, Y)\<close>; a single
  token \<open>X\<close> is split into \<open>(upper X, '''')\<close>; an empty or whitespace-only class name gives
  \<open>('''', '''')\<close>. Every string has one of the three forms (lemma \<open>class_name_forms\<close>).
  Whitespace is what \<^verbatim>\<open>str.isspace\<close> takes for it, and \<open>upper\<close> is \<^verbatim>\<open>str.upper\<close>, on all
  of Unicode.
\<close>

theorem split_class_cases:
  "((\<forall>c\<in>set l. isspace c) \<and> (\<forall>c\<in>set t. isspace c) \<and> x \<noteq> [] \<and> (\<forall>c\<in>set x. \<not> isspace c)
      \<and> w \<noteq> [] \<and> (\<forall>c\<in>set w. isspace c) \<and> y \<noteq> [] \<and> \<not> isspace (hd y) \<and> \<not> isspace (last y)
      \<longrightarrow> split_class (l @ x @ w @ y @ t) = (upper x, y))
   \<and> ((\<forall>c\<in>set l. isspace c) \<and> (\<forall>c\<in>set t. isspace c) \<and> x \<noteq> [] \<and> (\<forall>c\<in>set x. \<not> isspace c)
      \<longrightarrow> split_class (l @ x @ t) = (upper x, []))
   \<and> ((\<forall>c\<in>set s. isspace c) \<longrightarrow> split_class s = ([], []))"
proof (intro impI conjI)
  show "split_class s = ([], [])" if "\<forall>c\<in>set s. isspace c"
    using that by (simp add: split_class_def strip_all_space)
next
  assume h: "(\<forall>c\<in>set l. isspace c) \<and> (\<forall>c\<in>set t. isspace c) \<and> x \<noteq> [] \<and> (\<forall>c\<in>set x. \<not> isspace c)"
  then have hx: "\<not> isspace (hd x)" "\<not> isspace (last x)" by simp_all
  have "strip (l @ x @ t) = x"
    using h hx by (intro strip_sandwich) simp_all
  then show "split_class (l @ x @ t) = (upper x, [])"
    using h by (simp add: split_class_def split_ws_one del: split_ws.simps)
next
  assume k: "(\<forall>c\<in>set l. isspace c) \<and> (\<forall>c\<in>set t. isspace c) \<and> x \<noteq> [] \<and> (\<forall>c\<in>set x. \<not> isspace c)
      \<and> w \<noteq> [] \<and> (\<forall>c\<in>set w. isspace c) \<and> y \<noteq> [] \<and> \<not> isspace (hd y) \<and> \<not> isspace (last y)"
  then have hx: "\<not> isspace (hd x)" by simp
  have "strip (l @ (x @ w @ y) @ t) = x @ w @ y"
    using k hx by (intro strip_sandwich) (simp_all add: hd_append)
  then show "split_class (l @ x @ w @ y @ t) = (upper x, y)"
    using k by (simp add: split_class_def split_ws_two del: split_ws.simps)
qed

theorem split_class_cases_witness:
  "split_class ([0xA0, 0x20] @ str ''cse'' @ [0x2003, 0x20] @ str ''3666 x'' @ [0x20, 0x3000])
     = (str ''CSE'', str ''3666 x'')
   \<and> split_class ([0xA0, 0x20] @ [0xE9, 0xDF] @ [0x20, 0x3000]) = ([0xC9, 0x53, 0x53], [])
   \<and> split_class [0xA0, 0x20] = ([], [])"
proof -
  define l :: ustring where "l = [0xA0, 0x20]"
  define t :: ustring where "t = [0x20, 0x3000]"
  define w :: ustring where "w = [0x2003, 0x20]"
  define x where "x = str ''cse''"
  define y where "y = str ''3666 x''"
  define x' :: ustring where "x' = [0xE9, 0xDF]"
  have h: "\<forall>c\<in>set l. isspace c" "\<forall>c\<in>set t. isspace c" "x \<noteq> []" "\<forall>c\<in>set x. \<not> isspace c"
    "w \<noteq> []" "\<forall>c\<in>set w. isspace c" "y \<noteq> []" "\<not> isspace (hd y)" "\<not> isspace (last y)"
    "x' \<noteq> []" "\<forall>c\<in>set x'. \<not> isspace c"
    unfolding l_def t_def w_def x_def y_def x'_def by code_simp+
  have u: "upper x = str ''CSE''" "upper x' = [0xC9, 0x53, 0x53]"
    unfolding x_def x'_def by code_simp+
  have "split_class (l @ x @ w @ y @ t) = (upper x, y)"
    using split_class_cases [of l t x w y l] h by blast
  moreover have "split_class (l @ x' @ t) = (upper x', [])"
    using split_class_cases [of l t x' w y l] h by blast
  moreover have "split_class l = ([], [])"
    using split_class_cases [of l t x w y l] h by blast
  ultimately show ?thesis
    unfolding u unfolding l_def t_def w_def x_def y_def x'_def by blast
qed

section \<open>Term Discovery\<close>

lemma collect_options_filter:
  "collect_options opts =
     map (\<lambda>opt. (option_value opt, option_label opt))
       (filter (\<lambda>opt. isdigit (option_value opt)) opts)"
  by (induction opts) simp_all

lemma try_selectors_find:
  "try_selectors response sels =
     (case find (\<lambda>sel. collect_options (css_options response sel) \<noteq> []) sels of
        None \<Rightarrow> []
      | Some sel \<Rightarrow> collect_options (css_options response sel))"
  by (induction sels) (auto simp: Let_def)

text \<open>
  Claim C1, amended. Term Discovery uses the first selector of the prioritized list that
  yields at least one option whose trimmed value attribute consists entirely of digits;
  its result is exactly the options of that selector with such a value, each as the pair of
  trimmed value and trimmed label, in document order; when no selector yields such an
  option the result is the empty list. Trimming and digits are those of \<^verbatim>\<open>str.strip\<close> and
  \<^verbatim>\<open>str.isdigit\<close>, on all of Unicode.
\<close>

theorem extract_term_options_first_digit_selector:
  "extract_term_options response =
     (case find (\<lambda>sel. collect_options (css_options response sel) \<noteq> []) selectors_to_try of
        None \<Rightarrow> []
      | Some sel \<Rightarrow> collect_options (css_options response sel))
   \<and> collect_options opts =
       map (\<lambda>opt. (option_value opt, option_label opt))
         (filter (\<lambda>opt. isdigit (option_value opt)) opts)"
  unfolding extract_term_options_def
  using try_selectors_find collect_options_filter by (intro conjI)

theorem extract_term_options_witness:
  \<open>extract_term_options placeholder_page = [(str ''1258'', str ''Fall 2025'')]
   \<and> extract_term_options unicode_page = [([0x661, 0x662], str ''Fall 2025'')]\<close>
proof -
  have f: "find (\<lambda>sel. collect_options (css_options placeholder_page sel) \<noteq> []) selectors_to_try
             = Some ''form select option''"
    by code_simp
  have c: "collect_options (css_options placeholder_page ''form select option'')
             = [(str ''1258'', str ''Fall 2025'')]"
    by code_simp
  have g: \<open>find (\<lambda>sel. collect_options (css_options unicode_page sel) \<noteq> []) selectors_to_try
             = Some ''select[name="term"] option''\<close>
    by code_simp
  have d: \<open>collect_options (css_options unicode_page ''select[name="term"] option'')
             = [([0x661, 0x662], str ''Fall 2025'')]\<close>
    by code_simp
  have "extract_term_options placeholder_page = [(str ''1258'', str ''Fall 2025'')]"
    using extract_term_options_first_digit_selector [of placeholder_page "[]"]
    by (simp only: f c option.case)
  moreover have "extract_term_options unicode_page = [([0x661, 0x662], str ''Fall 2025'')]"
    using extract_term_options_first_digit_selector [of unicode_page "[]"]
    by (simp only: g d option.case)
  ultimately show ?thesis by (rule conjI)
qed

text \<open>
  Claim C1 as stated fails: on \<open>placeholder_page\<close> the first selector that yields any option
  yields a placeholder only, so the claim gives the empty list, and the code goes on to the
  third selector and returns the term it finds there.
\<close>

theorem extract_term_options_counterexample:
  \<open>hd selectors_to_try = ''select[name="term"] option''
   \<and> css_options placeholder_page (hd selectors_to_try) \<noteq> []
   \<and> collect_options (css_options placeholder_page (hd selectors_to_try)) = []
   \<and> term_options_first_selector placeholder_page = []
   \<and> extract_term_options placeholder_page = [(str ''1258'', str ''Fall 2025'')]\<close>
  by code_simp

section \<open>The Column Resolver\<close>

lemma find_header_none:
  "(find_header name i hs = None) = (\<forall>h\<in>set hs. \<not> sublist name h)"
  by (induction hs arbitrary: i) simp_all

lemma find_header_first:
  "j < length hs \<Longrightarrow> sublist name (hs ! j) \<Longrightarrow> \<forall>k<j. \<not> sublist name (hs ! k) \<Longrightarrow>
     find_header name i hs = Some (i + j)"
proof (induction hs arbitrary: i j)
  case Nil
  then show ?case by simp
next
  case (Cons h hs)
  show ?case
  proof (cases j)
    case 0
    with Cons.prems show ?thesis by simp
  next
    case (Suc j')
    have "\<not> sublist name h" using Cons.prems(3) Suc by auto
    moreover have "find_header name (Suc i) hs = Some (Suc i + j')"
      using Cons.prems Suc by (intro Cons.IH) auto
    ultimately show ?thesis using Suc by simp
  qed
qed

lemma col_index_skip:
  "\<forall>n\<in>set pre. \<forall>h\<in>set headers. \<not> sublist n h \<Longrightarrow>
     col_index headers (pre @ names) d = col_index headers names d"
proof (induction pre)
  case Nil
  then show ?case by simp
next
  case (Cons n pre)
  then have "find_header n 0 headers = None" by (simp add: find_header_none)
  with Cons show ?case by simp
qed

text \<open>
  Claim C2, amended. The candidates of a column are tried in their listed order: for the
  first candidate that some header contains, the Column Resolver returns the lowest index
  of a header that contains it (for a column with a single candidate this is the first
  header that contains any candidate); if no header contains any candidate it returns the
  positional default; with an empty headers list every column resolves to its default
  (class 1, section 2, instructor 3, syllabus link 4).
\<close>

theorem col_index_priority:
  "(names = pre @ name # post \<and> (\<forall>n\<in>set pre. \<forall>h\<in>set headers. \<not> sublist n h)
      \<and> i < length headers \<and> sublist name (headers ! i) \<and> (\<forall>j<i. \<not> sublist name (headers ! j))
      \<longrightarrow> col_index headers names d = i)
   \<and> ((\<forall>n\<in>set names. \<forall>h\<in>set headers. \<not> sublist n h) \<longrightarrow> col_index headers names d = d)
   \<and> col_index [] names d = d
   \<and> class_col [] = 1 \<and> section_col [] = 2 \<and> instructor_col [] = 3 \<and> syllabi_col [] = 4"
proof (intro conjI impI)
  assume a: "names = pre @ name # post \<and> (\<forall>n\<in>set pre. \<forall>h\<in>set headers. \<not> sublist n h)
      \<and> i < length headers \<and> sublist name (headers ! i) \<and> (\<forall>j<i. \<not> sublist name (headers ! j))"
  then have "find_header name 0 headers = Some (0 + i)"
    by (intro find_header_first) simp_all
  then have "col_index headers (name # post) d = i" by simp
  with a show "col_index headers names d = i" by (simp add: col_index_skip)
next
  assume "\<forall>n\<in>set names. \<forall>h\<in>set headers. \<not> sublist n h"
  then show "col_index headers names d = d"
    using col_index_skip [of names headers "[]" d] by simp
next
  show "col_index [] names d = d" by (induction names) simp_all
qed (simp_all add: class_col_def section_col_def instructor_col_def syllabi_col_def)

theorem col_index_priority_witness:
  "col_index [str ''course syllabus'', str ''all syllabi''] [str ''syllabi'', str ''syllabus''] 4 = 1
   \<and> col_index [str ''term'', str ''course''] [str ''class''] 1 = 1"
proof -
  have a: "sublist (str ''syllabi'') ([str ''course syllabus'', str ''all syllabi''] ! 1)"
    "\<not> sublist (str ''syllabi'') ([str ''course syllabus'', str ''all syllabi''] ! 0)"
    "\<not> sublist (str ''class'') (str ''term'')" "\<not> sublist (str ''class'') (str ''course'')"
    by code_simp+
  have b: "\<forall>j<1. \<not> sublist (str ''syllabi'') ([str ''course syllabus'', str ''all syllabi''] ! j)"
    using a(2) by simp
  have c: "\<forall>n\<in>set [str ''class'']. \<forall>h\<in>set [str ''term'', str ''course'']. \<not> sublist n h"
    using a(3,4) by simp
  show ?thesis
    using col_index_priority [of "[str ''syllabi'', str ''syllabus'']" "[]" "str ''syllabi''"
        "[str ''syllabus'']" "[str ''course syllabus'', str ''all syllabi'']" 1 4]
      col_index_priority [of "[str ''class'']" "[]" "str ''class''" "[]"
        "[str ''term'', str ''course'']" 0 1]
      a(1) b c
    by simp
qed

text \<open>
  Claim C2 as stated fails for the syllabus-link column, which has two candidates: with the
  headers \<open>course syllabus\<close> and \<open>all syllabi\<close> the first header that contains a candidate is
  at index 0, and the code returns 1, the first header that contains the first candidate.
\<close>

theorem col_index_counterexample:
  "syllabi_col [str ''course syllabus'', str ''all syllabi''] = 1
   \<and> col_index_first_header [str ''course syllabus'', str ''all syllabi'']
        [str ''syllabi'', str ''syllabus''] 4 = 0"
  by code_simp

section \<open>The Row Parser\<close>

lemma max_col_ge:
  "class_col hs \<le> max_col hs" "section_col hs \<le> max_col hs"
  "instructor_col hs \<le> max_col hs" "syllabi_col hs \<le> max_col hs"
  by (simp_all add: max_col_def)

lemma parse_row_eq:
  "parse_row hs cells =
     Inr (if max_col hs < length cells \<and> cell_text (cells ! class_col hs) \<noteq> []
          then Some \<lparr>row_class_name = cell_text (cells ! class_col hs),
                     row_section = cell_text (cells ! section_col hs),
                     row_instructor = cell_text (cells ! instructor_col hs),
                     row_href = cell_href (cells ! syllabi_col hs)\<rparr>
          else None)"
proof (cases "max_col hs < length cells")
  case True
  then have "class_col hs < length cells" "section_col hs < length cells"
    "instructor_col hs < length cells" "syllabi_col hs < length cells"
    using max_col_ge [of hs] by simp_all
  with True show ?thesis by (simp add: parse_row_def index_def)
next
  case False
  then show ?thesis by (simp add: parse_row_def)
qed

lemma parse_rows_eq:
  "parse_rows hs rows =
     Inr (map (\<lambda>cells. \<lparr>row_class_name = cell_text (cells ! class_col hs),
                         row_section = cell_text (cells ! section_col hs),
                         row_instructor = cell_text (cells ! instructor_col hs),
                         row_href = cell_href (cells ! syllabi_col hs)\<rparr>)
            (filter (\<lambda>cells. max_col hs < length cells \<and> cell_text (cells ! class_col hs) \<noteq> [])
               rows))"
  by (induction rows) (simp_all add: parse_row_eq)

text \<open>
  Claim C8. The Row Parser never fails, and what it emits is, in document order, one
  TableRow for each table row whose number of cells exceeds the largest resolved column
  index and whose class-name cell has a non-empty text: the texts of the resolved class,
  section and instructor cells and the first href of the resolved link cell. Every other
  row is skipped.
\<close>

theorem parse_results_table_rows:
  "parse_results_table response =
     Inr (map (\<lambda>cells. \<lparr>row_class_name = cell_text (cells ! class_col (table_headers response)),
                         row_section = cell_text (cells ! section_col (table_headers response)),
                         row_instructor = cell_text (cells ! instructor_col (table_headers response)),
                         row_href = cell_href (cells ! syllabi_col (table_headers response))\<rparr>)
            (filter (\<lambda>cells. max_col (table_headers response) < length cells
                             \<and> cell_text (cells ! class_col (table_headers response)) \<noteq> [])
               (table_tr response)))"
  unfolding parse_results_table_def by (rule parse_rows_eq)

theorem parse_results_table_rows_witness:
  "parse_results_table results_page =
     Inr [\<lparr>row_class_name = str ''CSE 3666'', row_section = str ''001'',
            row_instructor = str ''Zhijie Shi'', row_href = str ''download.php?file=10|abc''\<rparr>,
          \<lparr>row_class_name = str ''math 1131Q'', row_section = str ''002'',
            row_instructor = str ''Staff'', row_href = []\<rparr>]"
proof -
  have r: "map (\<lambda>cells. \<lparr>row_class_name = cell_text (cells ! class_col (table_headers results_page)),
                         row_section = cell_text (cells ! section_col (table_headers results_page)),
                         row_instructor = cell_text (cells ! instructor_col (table_headers results_page)),
                         row_href = cell_href (cells ! syllabi_col (table_headers results_page))\<rparr>)
            (filter (\<lambda>cells. max_col (table_headers results_page) < length cells
                             \<and> cell_text (cells ! class_col (table_headers results_page)) \<noteq> [])
               (table_tr results_page))
     = [\<lparr>row_class_name = str ''CSE 3666'', row_section = str ''001'',
            row_instructor = str ''Zhijie Shi'', row_href = str ''download.php?file=10|abc''\<rparr>,
          \<lparr>row_class_name = str ''math 1131Q'', row_section = str ''002'',
            row_instructor = str ''Staff'', row_href = []\<rparr>]"
    by code_simp
  show ?thesis using parse_results_table_rows [of results_page] by (simp only: r)
qed

section \<open>The per-term callback\<close>










section \<open>The Filename Deriver: department and number\<close>

lemma class_parts_two:
  assumes "class_name i = Some (l @ x @ w @ y @ t)"
    and "\<forall>c\<in>set l. isspace c" "\<forall>c\<in>set t. isspace c" "x \<noteq> []" "\<forall>c\<in>set x. \<not> isspace c"
    and "w \<noteq> []" "\<forall>c\<in>set w. isspace c" "y \<noteq> []" "\<not> isspace (hd y)" "\<not> isspace (last y)"
  shows "class_parts (Some i) = [x, y]"
proof -
  have hx: "\<not> isspace (hd x)" using assms(4,5) by simp
  have "strip (l @ (x @ w @ y) @ t) = x @ w @ y"
    using assms hx by (intro strip_sandwich) (simp_all add: hd_append)
  then show ?thesis
    using assms
    by (simp add: class_parts_def adapter_get_def or_default_def split_ws_two
          del: split_ws.simps)
qed

lemma class_parts_one:
  assumes "class_name i = Some (l @ x @ t)"
    and "\<forall>c\<in>set l. isspace c" "\<forall>c\<in>set t. isspace c" "x \<noteq> []" "\<forall>c\<in>set x. \<not> isspace c"
  shows "class_parts (Some i) = [x]"
proof -
  have hx: "\<not> isspace (hd x)" "\<not> isspace (last x)" using assms(4,5) by simp_all
  have "strip (l @ x @ t) = x"
    using assms hx by (intro strip_sandwich) simp_all
  then show ?thesis
    using assms
    by (simp add: class_parts_def adapter_get_def or_default_def split_ws_one
          del: split_ws.simps)
qed

lemma class_parts_none:
  assumes "class_name i = Some s" "\<forall>c\<in>set s. isspace c"
  shows "class_parts (Some i) = []"
  using assms by (simp add: class_parts_def adapter_get_def or_default_def strip_all_space)

lemma split_class_two:
  assumes "\<forall>c\<in>set l. isspace c" "\<forall>c\<in>set t. isspace c" "x \<noteq> []" "\<forall>c\<in>set x. \<not> isspace c"
    and "w \<noteq> []" "\<forall>c\<in>set w. isspace c" "y \<noteq> []" "\<not> isspace (hd y)" "\<not> isspace (last y)"
  shows "split_class (l @ x @ w @ y @ t) = (upper x, y)"
proof -
  have hx: "\<not> isspace (hd x)" using assms(3,4) by simp
  have "strip (l @ (x @ w @ y) @ t) = x @ w @ y"
    using assms hx by (intro strip_sandwich) (simp_all add: hd_append)
  then show ?thesis
    using assms by (simp add: split_class_def split_ws_two del: split_ws.simps)
qed

lemma split_class_one:
  assumes "\<forall>c\<in>set l. isspace c" "\<forall>c\<in>set t. isspace c" "x \<noteq> []" "\<forall>c\<in>set x. \<not> isspace c"
  shows "split_class (l @ x @ t) = (upper x, [])"
proof -
  have hx: "\<not> isspace (hd x)" "\<not> isspace (last x)" using assms(3,4) by simp_all
  have "strip (l @ x @ t) = x"
    using assms hx by (intro strip_sandwich) simp_all
  then show ?thesis
    using assms by (simp add: split_class_def split_ws_one del: split_ws.simps)
qed

text \<open>
  Claim C3, amended. Leading and trailing whitespace aside, a class name is a first token
  \<open>X\<close> without whitespace, either alone or followed by a run of whitespace and a rest \<open>Y\<close>
  (lemma \<open>class_name_forms\<close>). The dept component of the filename is \<open>X\<close> as it is written,
  with every non-word character stripped; the Filename Deriver does not upper-case it,
  while the department of the Class-Name Splitter is \<open>upper X\<close>. The number component is
  \<open>Y\<close> with every non-word character stripped, and \<open>0\<close> when there is no second token. For
  an empty or whitespace-only class name, and without an item, dept is \<open>UNKNOWN\<close> and number
  is \<open>0\<close>.
\<close>

theorem file_dept_number:
  "(class_name i = Some (l @ x @ w @ y @ t)
      \<and> (\<forall>c\<in>set l. isspace c) \<and> (\<forall>c\<in>set t. isspace c) \<and> x \<noteq> [] \<and> (\<forall>c\<in>set x. \<not> isspace c)
      \<and> w \<noteq> [] \<and> (\<forall>c\<in>set w. isspace c) \<and> y \<noteq> [] \<and> \<not> isspace (hd y) \<and> \<not> isspace (last y)
      \<longrightarrow> file_dept (Some i) = strip_nonword x \<and> file_number (Some i) = strip_nonword y
          \<and> fst (split_class (l @ x @ w @ y @ t)) = upper x)
   \<and> (class_name i = Some (l @ x @ t)
      \<and> (\<forall>c\<in>set l. isspace c) \<and> (\<forall>c\<in>set t. isspace c) \<and> x \<noteq> [] \<and> (\<forall>c\<in>set x. \<not> isspace c)
      \<longrightarrow> file_dept (Some i) = strip_nonword x \<and> file_number (Some i) = str ''0''
          \<and> fst (split_class (l @ x @ t)) = upper x)
   \<and> (class_name i = Some s \<and> (\<forall>c\<in>set s. isspace c)
      \<longrightarrow> file_dept (Some i) = str ''UNKNOWN'' \<and> file_number (Some i) = str ''0'')
   \<and> file_dept None = str ''UNKNOWN'' \<and> file_number None = str ''0''"
proof (intro conjI impI)
  assume a: "class_name i = Some (l @ x @ w @ y @ t)
      \<and> (\<forall>c\<in>set l. isspace c) \<and> (\<forall>c\<in>set t. isspace c) \<and> x \<noteq> [] \<and> (\<forall>c\<in>set x. \<not> isspace c)
      \<and> w \<noteq> [] \<and> (\<forall>c\<in>set w. isspace c) \<and> y \<noteq> [] \<and> \<not> isspace (hd y) \<and> \<not> isspace (last y)"
  then have p: "class_parts (Some i) = [x, y]" by (intro class_parts_two [of i l x w y t]) simp_all
  show "file_dept (Some i) = strip_nonword x" by (simp add: file_dept_def p)
  show "file_number (Some i) = strip_nonword y" by (simp add: file_number_def p)
  have "split_class (l @ x @ w @ y @ t) = (upper x, y)"
    using a by (intro split_class_two) simp_all
  then show "fst (split_class (l @ x @ w @ y @ t)) = upper x" by simp
next
  assume a: "class_name i = Some (l @ x @ t)
      \<and> (\<forall>c\<in>set l. isspace c) \<and> (\<forall>c\<in>set t. isspace c) \<and> x \<noteq> [] \<and> (\<forall>c\<in>set x. \<not> isspace c)"
  then have p: "class_parts (Some i) = [x]" by (intro class_parts_one [of i l x t]) simp_all
  show "file_dept (Some i) = strip_nonword x" by (simp add: file_dept_def p)
  show "file_number (Some i) = str ''0''" by (simp add: file_number_def p)
  have "split_class (l @ x @ t) = (upper x, [])"
    using a by (intro split_class_one) simp_all
  then show "fst (split_class (l @ x @ t)) = upper x" by simp
next
  assume a: "class_name i = Some s \<and> (\<forall>c\<in>set s. isspace c)"
  then have p: "class_parts (Some i) = []" by (intro class_parts_none [of i s]) simp_all
  show "file_dept (Some i) = str ''UNKNOWN''" by (simp add: file_dept_def p)
  show "file_number (Some i) = str ''0''" by (simp add: file_number_def p)
next
  have p: "class_parts None = []"
    by (simp add: class_parts_def adapter_get_def or_default_def strip_all_space)
  show "file_dept None = str ''UNKNOWN''" by (simp add: file_dept_def p)
  show "file_number None = str ''0''" by (simp add: file_number_def p)
qed

theorem file_dept_number_witness:
  "file_dept (Some math_item) = str ''math'' \<and> file_number (Some math_item) = str ''1131Q''
   \<and> fst (split_class (str ''math 1131Q'')) = str ''MATH''
   \<and> file_dept (Some (math_item\<lparr>class_name := Some [0xA0, 0x1F0, 0x2D, 0x61, 0x2003]\<rparr>))
       = [0x1F0, 0x61]
   \<and> file_number (Some (math_item\<lparr>class_name := Some [0xA0, 0x1F0, 0x2D, 0x61, 0x2003]\<rparr>))
       = str ''0''
   \<and> fst (split_class [0xA0, 0x1F0, 0x2D, 0x61, 0x2003]) = [0x4A, 0x30C, 0x2D, 0x41]
   \<and> file_dept (Some (math_item\<lparr>class_name := Some [0xA0, 0x20]\<rparr>)) = str ''UNKNOWN''
   \<and> file_number (Some (math_item\<lparr>class_name := Some [0xA0, 0x20]\<rparr>)) = str ''0''"
proof -
  define x where "x = str ''math''"
  define w where "w = str '' ''"
  define y where "y = str ''1131Q''"
  define l :: ustring where "l = [0xA0]"
  define x' :: ustring where "x' = [0x1F0, 0x2D, 0x61]"
  define t :: ustring where "t = [0x2003]"
  define s :: ustring where "s = [0xA0, 0x20]"
  define i1 where "i1 = math_item\<lparr>class_name := Some (l @ x' @ t)\<rparr>"
  define i2 where "i2 = math_item\<lparr>class_name := Some s\<rparr>"
  have c: "class_name math_item = Some ([] @ x @ w @ y @ [])"
    unfolding x_def w_def y_def by code_simp
  have c1: "class_name i1 = Some (l @ x' @ t)" and c2: "class_name i2 = Some s"
    by (simp_all add: i1_def i2_def)
  have h: "x \<noteq> []" "\<forall>c\<in>set x. \<not> isspace c" "w \<noteq> []" "\<forall>c\<in>set w. isspace c"
    "y \<noteq> []" "\<not> isspace (hd y)" "\<not> isspace (last y)"
    "\<forall>c\<in>set l. isspace c" "\<forall>c\<in>set t. isspace c" "x' \<noteq> []" "\<forall>c\<in>set x'. \<not> isspace c"
    "\<forall>c\<in>set s. isspace c"
    unfolding x_def w_def y_def l_def x'_def t_def s_def by code_simp+
  have v: "strip_nonword x = str ''math''" "strip_nonword y = str ''1131Q''"
    "upper x = str ''MATH''" "strip_nonword x' = [0x1F0, 0x61]"
    "upper x' = [0x4A, 0x30C, 0x2D, 0x41]"
    unfolding x_def y_def x'_def by code_simp+
  have e: "[] @ x @ w @ y @ [] = str ''math 1131Q''"
    unfolding x_def w_def y_def by code_simp
  have "file_dept (Some math_item) = strip_nonword x
          \<and> file_number (Some math_item) = strip_nonword y
          \<and> fst (split_class ([] @ x @ w @ y @ [])) = upper x"
    using file_dept_number [of math_item "[]" x w y "[]" s] c h by simp
  moreover have "file_dept (Some i1) = strip_nonword x' \<and> file_number (Some i1) = str ''0''
          \<and> fst (split_class (l @ x' @ t)) = upper x'"
    using file_dept_number [of i1 l x' w y t s] c1 h by blast
  moreover have "file_dept (Some i2) = str ''UNKNOWN'' \<and> file_number (Some i2) = str ''0''"
    using file_dept_number [of i2 l x' w y t s] c2 h by blast
  ultimately show ?thesis
    unfolding v e unfolding i1_def i2_def l_def x'_def t_def s_def by simp
qed

text \<open>
  Claim C3 as stated fails: for the class name \<open>math 1131Q\<close> the dept component of the
  filename is \<open>math\<close>, and the department of the Class-Name Splitter, which is upper-cased,
  gives \<open>MATH\<close> when its non-word characters are stripped.
\<close>

theorem file_dept_counterexample:
  "class_name math_item = Some (str ''math 1131Q'')
   \<and> file_dept (Some math_item) = str ''math''
   \<and> strip_nonword (fst (split_class (str ''math 1131Q''))) = str ''MATH''"
  by code_simp

section \<open>The Filename Deriver: file identifier\<close>

lemma pipe_codes: "ord CHR ''|'' = 124" "str ''|'' = [124]" "str ''%7C'' = [37, 55, 67]"
  "ord CHR ''%'' = 37" "ord CHR ''7'' = 55" "ord CHR ''C'' = 67"
  by (simp_all add: ord_def str_def)

lemma decode_pipe_step:
  "\<not> prefix (str ''%7C'') (c # s) \<Longrightarrow> decode_pipe (c # s) = c # decode_pipe s"
  by (cases "c # s" rule: decode_pipe.cases) (auto simp: pipe_codes)

lemma decode_pipe_sep:
  "sep = str ''|'' \<or> sep = str ''%7C'' \<Longrightarrow> decode_pipe (sep @ b) = ord CHR ''|'' # decode_pipe b"
  using decode_pipe_step [of 124 b] by (auto simp: pipe_codes)

lemma no_straddle:
  assumes "\<not> sublist (str ''%7C'') (c # a)" "sep = str ''|'' \<or> sep = str ''%7C''"
  shows "\<not> prefix (str ''%7C'') (c # a @ sep @ b)"
proof
  assume p: "prefix (str ''%7C'') (c # a @ sep @ b)"
  have n: "\<not> prefix (str ''%7C'') (c # a)"
    using assms(1) by (simp add: sublist_Cons_right)
  show False
  proof (cases a)
    case Nil
    then show ?thesis using p assms(2) by (auto simp: pipe_codes)
  next
    case (Cons d a')
    show ?thesis
    proof (cases a')
      case Nil
      then show ?thesis using p assms(2) Cons by (auto simp: pipe_codes)
    next
      case (Cons e a'')
      then show ?thesis using p n \<open>a = d # a'\<close> by (auto simp: pipe_codes)
    qed
  qed
qed

lemma decode_pipe_clean:
  "\<not> sublist (str ''%7C'') a \<Longrightarrow> sep = str ''|'' \<or> sep = str ''%7C'' \<Longrightarrow>
     decode_pipe (a @ sep @ b) = a @ ord CHR ''|'' # decode_pipe b"
proof (induction a)
  case Nil
  then show ?case using decode_pipe_sep [of sep b] by simp
next
  case (Cons c a)
  have "\<not> sublist (str ''%7C'') a" using Cons.prems(1) by (simp add: sublist_Cons_right)
  then have "decode_pipe (a @ sep @ b) = a @ ord CHR ''|'' # decode_pipe b"
    using Cons.prems(2) by (rule Cons.IH)
  moreover have "decode_pipe (c # a @ sep @ b) = c # decode_pipe (a @ sep @ b)"
    using no_straddle [OF Cons.prems] by (rule decode_pipe_step)
  ultimately show ?case by simp
qed

lemma decode_pipe_first:
  "ord CHR ''|'' \<in> set (decode_pipe v) \<Longrightarrow>
     \<exists>a sep b. v = a @ sep @ b \<and> (sep = str ''|'' \<or> sep = str ''%7C'')
        \<and> ord CHR ''|'' \<notin> set a \<and> \<not> sublist (str ''%7C'') a"
proof (induction v)
  case Nil
  then show ?case by simp
next
  case (Cons c v)
  show ?case
  proof (cases "prefix (str ''%7C'') (c # v)")
    case True
    then obtain b where "c # v = [] @ str ''%7C'' @ b" by (auto simp: prefix_def)
    moreover have "\<not> sublist (str ''%7C'') []" by (simp add: pipe_codes)
    ultimately show ?thesis by (metis empty_iff list.set(1))
  next
    case False
    then have d: "decode_pipe (c # v) = c # decode_pipe v" by (rule decode_pipe_step)
    show ?thesis
    proof (cases "c = ord CHR ''|''")
      case True
      then have "c # v = [] @ str ''|'' @ v" by (simp add: pipe_codes)
      moreover have "\<not> sublist (str ''%7C'') []" by (simp add: pipe_codes)
      ultimately show ?thesis by (metis empty_iff list.set(1))
    next
      case c: False
      then have "ord CHR ''|'' \<in> set (decode_pipe v)" using Cons.prems d by simp
      then obtain a sep b where v: "v = a @ sep @ b" "sep = str ''|'' \<or> sep = str ''%7C''"
        "ord CHR ''|'' \<notin> set a" "\<not> sublist (str ''%7C'') a"
        using Cons.IH by blast
      have "prefix (str ''%7C'') (c # a) \<Longrightarrow> prefix (str ''%7C'') ((c # a) @ sep @ b)"
        by (rule prefix_prefix)
      then have "\<not> prefix (str ''%7C'') (c # a)"
        using False v(1) by auto
      then have "\<not> sublist (str ''%7C'') (c # a)" using v(4) by (simp add: sublist_Cons_right)
      moreover have "c # v = (c # a) @ sep @ b" using v(1) by simp
      moreover have "ord CHR ''|'' \<notin> set (c # a)" using c v(3) by simp
      ultimately show ?thesis using v(2) by blast
    qed
  qed
qed

lemma takeWhile_first: "k \<notin> set a \<Longrightarrow> takeWhile (\<lambda>x. x \<noteq> k) (a @ k # r) = a"
  by (induction a) auto

lemma file_id_clean:
  assumes "file_param u = a @ sep @ b" "sep = str ''|'' \<or> sep = str ''%7C''"
    and "ord CHR ''|'' \<notin> set a" "\<not> sublist (str ''%7C'') a"
  shows "file_id u = strip a" "part_before (ord CHR ''|'') (decode_pipe (file_param u)) = a"
proof -
  have d: "decode_pipe (file_param u) = a @ ord CHR ''|'' # decode_pipe b"
    unfolding assms(1) using assms(4,2) by (rule decode_pipe_clean)
  show p: "part_before (ord CHR ''|'') (decode_pipe (file_param u)) = a"
    unfolding d part_before_def using assms(3) by (rule takeWhile_first)
  show "file_id u = strip a"
    unfolding file_id_def Let_def p using d by simp
qed

text \<open>
  Claim C4. When the \<open>file\<close> parameter of the URL's query string, with \<open>%7C\<close> decoded to a
  pipe, contains a pipe, the parameter is a text \<open>a\<close> without a pipe and without \<open>%7C\<close>,
  followed by a pipe or by \<open>%7C\<close>; \<open>a\<close> is the decoded parameter up to its first pipe, and
  the file identifier is \<open>a\<close>, trimmed. The queries \<open>file=123|abc\<close> and \<open>file=123%7Cabc\<close>
  both give the identifier 123, and so does \<open>file=123%257Cabc\<close>, whose parameter
  \<^verbatim>\<open>parse_qs\<close> leaves with a \<open>%7C\<close> for the Filename Deriver to decode; a no-break space
  before the identifier is trimmed.
\<close>

theorem file_id_pipe:
  "(ord CHR ''|'' \<in> set (decode_pipe (file_param u)) \<longrightarrow>
      (\<exists>a sep b. file_param u = a @ sep @ b \<and> (sep = str ''|'' \<or> sep = str ''%7C'')
          \<and> ord CHR ''|'' \<notin> set a \<and> \<not> sublist (str ''%7C'') a
          \<and> a = part_before (ord CHR ''|'') (decode_pipe (file_param u))
          \<and> file_id u = strip a))
   \<and> (file_param u = a @ sep @ b \<and> (sep = str ''|'' \<or> sep = str ''%7C'')
          \<and> ord CHR ''|'' \<notin> set a \<and> \<not> sublist (str ''%7C'') a
        \<longrightarrow> file_id u = strip a)
   \<and> file_id ''https://syllabus.uconn.edu/public/download.php?file=123|abc'' = str ''123''
   \<and> file_id ''https://syllabus.uconn.edu/public/download.php?file=123%7Cabc'' = str ''123''
   \<and> file_id ''https://syllabus.uconn.edu/public/download.php?file=123%257Cabc'' = str ''123''
   \<and> file_id ''https://syllabus.uconn.edu/public/download.php?file=%C2%A012%7Cabc'' = str ''12''"
proof (intro conjI impI)
  assume "ord CHR ''|'' \<in> set (decode_pipe (file_param u))"
  then obtain a sep b where v: "file_param u = a @ sep @ b" "sep = str ''|'' \<or> sep = str ''%7C''"
    "ord CHR ''|'' \<notin> set a" "\<not> sublist (str ''%7C'') a"
    using decode_pipe_first by blast
  then have "file_id u = strip a" "a = part_before (ord CHR ''|'') (decode_pipe (file_param u))"
    using file_id_clean [of u a sep b] by simp_all
  then show "\<exists>a sep b. file_param u = a @ sep @ b \<and> (sep = str ''|'' \<or> sep = str ''%7C'')
          \<and> ord CHR ''|'' \<notin> set a \<and> \<not> sublist (str ''%7C'') a
          \<and> a = part_before (ord CHR ''|'') (decode_pipe (file_param u))
          \<and> file_id u = strip a"
    using v by blast
next
  assume "file_param u = a @ sep @ b \<and> (sep = str ''|'' \<or> sep = str ''%7C'')
          \<and> ord CHR ''|'' \<notin> set a \<and> \<not> sublist (str ''%7C'') a"
  then show "file_id u = strip a"
    using file_id_clean(1) [of u a sep b] by blast
next
  show "file_id ''https://syllabus.uconn.edu/public/download.php?file=123|abc'' = str ''123''"
    by code_simp
  show "file_id ''https://syllabus.uconn.edu/public/download.php?file=123%7Cabc'' = str ''123''"
    by code_simp
  show "file_id ''https://syllabus.uconn.edu/public/download.php?file=123%257Cabc'' = str ''123''"
    by code_simp
  show "file_id ''https://syllabus.uconn.edu/public/download.php?file=%C2%A012%7Cabc'' = str ''12''"
    by code_simp
qed

theorem file_id_pipe_witness:
  "file_param ''https://syllabus.uconn.edu/public/download.php?file=%C2%A010%257Cabc''
     = [0xA0, 0x31, 0x30] @ str ''%7C'' @ str ''abc''
   \<and> ord CHR ''|''
       \<in> set (decode_pipe
                (file_param ''https://syllabus.uconn.edu/public/download.php?file=%C2%A010%257Cabc''))
   \<and> file_id ''https://syllabus.uconn.edu/public/download.php?file=%C2%A010%257Cabc'' = str ''10''"
proof -
  define u where "u = ''https://syllabus.uconn.edu/public/download.php?file=%C2%A010%257Cabc''"
  define a :: ustring where "a = [0xA0, 0x31, 0x30]"
  have p: "file_param u = a @ str ''%7C'' @ str ''abc''"
    unfolding u_def a_def by code_simp
  have h: "ord CHR ''|'' \<notin> set a" "\<not> sublist (str ''%7C'') a"
    "ord CHR ''|'' \<in> set (decode_pipe (file_param u))"
    unfolding u_def a_def by code_simp+
  have s: "strip a = str ''10''"
    unfolding a_def by code_simp
  have "file_id u = strip a"
    using file_id_pipe [of u a "str ''%7C''" "str ''abc''"] p h by blast
  then show ?thesis
    using p h(3) unfolding s unfolding u_def a_def by blast
qed

lemma hex_digit_set: "n < 16 \<Longrightarrow> hex_digit n \<in> set ''0123456789abcdef''"
  unfolding hex_digit_def by (rule nth_mem) simp

lemma nibble_bound: "unat ((w :: word32) AND 15) < 16"
proof -
  have "unat (w AND 15) \<le> unat (15 :: word32)"
    by (rule word_and_le1 [THEN word_le_nat_alt [THEN iffD1]])
  then show ?thesis by simp
qed

lemma hex_word_props: "length (hex_word w) = 8 \<and> set (hex_word w) \<subseteq> set ''0123456789abcdef''"
  using hex_digit_set [OF nibble_bound] unfolding hex_word_def by auto

lemma sha1_hexdigest_props:
  "length (sha1_hexdigest m) = 40 \<and> set (sha1_hexdigest m) \<subseteq> set ''0123456789abcdef''"
proof -
  obtain a b c d e where "sha1_blocks (length (sha1_pad m) div 64)
      (0x67452301, 0xEFCDAB89, 0x98BADCFE, 0x10325476, 0xC3D2E1F0) (sha1_pad m) = (a, b, c, d, e)"
    by (rule prod_cases5)
  then have s: "sha1 m = [a, b, c, d, e]" by (simp add: sha1_def Let_def)
  have "length (sha1_hexdigest m) = 40"
    unfolding sha1_hexdigest_def s by (simp add: hex_word_props)
  moreover have "set (sha1_hexdigest m) \<subseteq> set ''0123456789abcdef''"
  proof -
    define H where "H = set ''0123456789abcdef''"
    have "set (hex_word w) \<subseteq> H" for w
      unfolding H_def using hex_word_props [of w] by (rule conjunct2)
    then have "set (concat (map hex_word [a, b, c, d, e])) \<subseteq> H" by simp
    then show ?thesis unfolding sha1_hexdigest_def s H_def .
  qed
  ultimately show ?thesis by (rule conjI)
qed

text \<open>
  Claim C5. When the query string of the URL has no \<open>file\<close> parameter, or its \<open>file\<close>
  parameter contains no pipe after \<open>%7C\<close> is decoded, the file identifier is the first 12
  characters of the hexadecimal SHA-1 digest of the whole URL: 12 characters, each a digit
  or a lower-case letter from a to f.
\<close>

theorem file_id_fallback:
  "map_of (parse_qsl (query (urlparse u))) (str ''file'') = None
     \<or> ord CHR ''|'' \<notin> set (decode_pipe (file_param u))
   \<longrightarrow> file_id u = str (take 12 (sha1_hexdigest (encode u)))
       \<and> length (file_id u) = 12
       \<and> set (file_id u) \<subseteq> set (str ''0123456789abcdef'')"
proof
  assume a: "map_of (parse_qsl (query (urlparse u))) (str ''file'') = None
     \<or> ord CHR ''|'' \<notin> set (decode_pipe (file_param u))"
  have "file_param u = []" if "map_of (parse_qsl (query (urlparse u))) (str ''file'') = None"
    using that by (simp add: file_param_def qs_get_first_def)
  then have "ord CHR ''|'' \<notin> set (decode_pipe (file_param u))" using a by auto
  then have f: "file_id u = str (take 12 (sha1_hexdigest (encode u)))"
    by (simp add: file_id_def)
  have "set (take 12 (sha1_hexdigest (encode u))) \<subseteq> set (sha1_hexdigest (encode u))"
    by (rule set_take_subset)
  then have "set (take 12 (sha1_hexdigest (encode u))) \<subseteq> set ''0123456789abcdef''"
    using sha1_hexdigest_props [of "encode u"] by blast
  then have s: "set (str (take 12 (sha1_hexdigest (encode u)))) \<subseteq> set (str ''0123456789abcdef'')"
    unfolding str_def set_map by (rule image_mono)
  have l: "length (str (take 12 (sha1_hexdigest (encode u)))) = 12"
    using sha1_hexdigest_props [of "encode u"] by (simp add: str_def)
  show "file_id u = str (take 12 (sha1_hexdigest (encode u)))
       \<and> length (file_id u) = 12
       \<and> set (file_id u) \<subseteq> set (str ''0123456789abcdef'')"
    unfolding f using s l by (intro conjI refl)
qed

theorem file_id_fallback_witness:
  "map_of (parse_qsl (query (urlparse ''https://syllabus.uconn.edu/public/download.php?id=7'')))
       (str ''file'') = None
   \<and> ord CHR ''|''
       \<notin> set (decode_pipe
                (file_param ''https://syllabus.uconn.edu/public/download.php?file=1410''))
   \<and> file_id ''https://syllabus.uconn.edu/public/download.php?id=7'' =
       str (take 12 (sha1_hexdigest
                       (encode ''https://syllabus.uconn.edu/public/download.php?id=7'')))
   \<and> file_id ''https://syllabus.uconn.edu/public/download.php?file=1410'' =
       str (take 12 (sha1_hexdigest
                       (encode ''https://syllabus.uconn.edu/public/download.php?file=1410'')))"
proof -
  define u1 where "u1 = ''https://syllabus.uconn.edu/public/download.php?id=7''"
  define u2 where "u2 = ''https://syllabus.uconn.edu/public/download.php?file=1410''"
  have a: "map_of (parse_qsl (query (urlparse u1))) (str ''file'') = None"
    unfolding u1_def by code_simp
  have b: "ord CHR ''|'' \<notin> set (decode_pipe (file_param u2))"
    unfolding u2_def by code_simp
  have "file_id u1 = str (take 12 (sha1_hexdigest (encode u1)))"
    using file_id_fallback [of u1] a by blast
  moreover have "file_id u2 = str (take 12 (sha1_hexdigest (encode u2)))"
    using file_id_fallback [of u2] b by blast
  ultimately show ?thesis
    using a b unfolding u1_def u2_def by blast
qed

section \<open>The Filename Deriver: determinism\<close>

text \<open>
  Claim C6. The filename depends on the URL of the request and on the \<open>term_code\<close> and
  \<open>class_name\<close> of the item only: two invocations that agree on these three produce the
  same filename, whatever the other fields of the item, the headers of the request, the
  response and the pipeline's information are.
\<close>

theorem file_path_deterministic:
  "url r1 = url r2 \<and> adapter_get i1 term_code = adapter_get i2 term_code
     \<and> adapter_get i1 class_name = adapter_get i2 class_name
   \<longrightarrow> file_path r1 resp1 info1 i1 = file_path r2 resp2 info2 i2"
proof
  assume a: "url r1 = url r2 \<and> adapter_get i1 term_code = adapter_get i2 term_code
     \<and> adapter_get i1 class_name = adapter_get i2 class_name"
  then have "class_parts i1 = class_parts i2" by (simp add: class_parts_def)
  then have "file_dept i1 = file_dept i2" "file_number i1 = file_number i2"
    by (simp_all add: file_dept_def file_number_def)
  moreover have "file_id (url r1) = file_id (url r2)" "file_ext (url r1) = file_ext (url r2)"
    using a by simp_all
  ultimately show "file_path r1 resp1 info1 i1 = file_path r2 resp2 info2 i2"
    using a by (simp add: file_path_def)
qed

theorem file_path_deterministic_witness:
  "file_path \<lparr>url = ''https://syllabus.uconn.edu/public/download.php?file=10%7Cabc'',
               request_headers = []\<rparr> (None :: string option) \<lparr>files_store = None\<rparr>
     (Some cse_item)
   = file_path \<lparr>url = ''https://syllabus.uconn.edu/public/download.php?file=10%7Cabc'',
                 request_headers =
                   [(''Referer'', ''https://syllabus.uconn.edu/public/search_term.php'')]\<rparr>
       (Some ''200'') \<lparr>files_store = Some (str ''files'')\<rparr>
       (Some (cse_item\<lparr>instructor := Some (str ''Staff''), files := None\<rparr>))"
  using file_path_deterministic
    [of "\<lparr>url = ''https://syllabus.uconn.edu/public/download.php?file=10%7Cabc'',
               request_headers = []\<rparr>"
        "\<lparr>url = ''https://syllabus.uconn.edu/public/download.php?file=10%7Cabc'',
           request_headers =
             [(''Referer'', ''https://syllabus.uconn.edu/public/search_term.php'')]\<rparr>"
        "Some cse_item" "Some (cse_item\<lparr>instructor := Some (str ''Staff''), files := None\<rparr>)"
        "None :: string option" "\<lparr>files_store = None\<rparr>" "Some ''200''"
        "\<lparr>files_store = Some (str ''files'')\<rparr>"]
  by (simp add: adapter_get_def)

section \<open>The local path fields of a record\<close>














end
